theory Spec2Isabelle
  imports Complex_Main "HOL-Library.Multiset"
begin

section \<open>Numbers, vectors and the objects of the two libraries\<close>

text \<open>
  JavaScript numbers are modelled as real numbers: every arithmetic expression of the
  source is read as exact arithmetic. Objects that the source shares by reference
  (rigid bodies, which the physics world mutates when it is stepped) live in a store
  indexed by their identifier; render objects are reached only through the ball that
  owns them and are kept by value, the scene holding their identifiers. Calls into
  the rendering and the physics library are modelled by their effect on these
  objects and are taken to succeed.
\<close>

type_synonym ref = nat

record vec2 =
  v2_x :: real
  v2_y :: real

record vec3 =
  vec_x :: real
  vec_y :: real
  vec_z :: real

record quat =
  quat_x :: real
  quat_y :: real
  quat_z :: real
  quat_w :: real

abbreviation Vector2 :: "real \<Rightarrow> real \<Rightarrow> vec2" where
  "Vector2 a b \<equiv> \<lparr>v2_x = a, v2_y = b\<rparr>"

abbreviation Vec3 :: "real \<Rightarrow> real \<Rightarrow> real \<Rightarrow> vec3" where
  "Vec3 a b c \<equiv> \<lparr>vec_x = a, vec_y = b, vec_z = c\<rparr>"

abbreviation Quaternion :: "real \<Rightarrow> real \<Rightarrow> real \<Rightarrow> real \<Rightarrow> quat" where
  "Quaternion a b c d \<equiv> \<lparr>quat_x = a, quat_y = b, quat_z = c, quat_w = d\<rparr>"

text \<open>
  \<^verbatim>\<open>Quaternion.setFromEuler\<close> of the rendering library for the default order XYZ;
  \<^verbatim>\<open>object.rotation.set(a, b, c)\<close> updates the object's quaternion through it.
\<close>

definition setFromEuler :: "real \<Rightarrow> real \<Rightarrow> real \<Rightarrow> quat" where
  "setFromEuler a b c =
     (let c1 = cos (a / 2); c2 = cos (b / 2); c3 = cos (c / 2);
          s1 = sin (a / 2); s2 = sin (b / 2); s3 = sin (c / 2)
      in Quaternion (s1 * c2 * c3 + c1 * s2 * s3)
                    (c1 * s2 * c3 - s1 * c2 * s3)
                    (c1 * c2 * s3 + s1 * s2 * c3)
                    (c1 * c2 * c3 - s1 * s2 * s3))"

datatype shape = Sphere real | Box vec3

datatype material = BallMaterial | WallMaterial | PointerMaterial

datatype body_type = DYNAMIC | STATIC | KINEMATIC

text \<open>A \<^verbatim>\<open>CANNON.Body\<close>: the fields the source sets or reads.\<close>

record body =
  mass :: real
  btype :: body_type
  material :: material
  position :: vec3
  velocity :: vec3
  angularVelocity :: vec3
  quaternion :: quat
  shapes :: "shape list"
  bodyLinearDamping :: real
  bodyAngularDamping :: real
  sleeping :: bool

text \<open>
  \<^verbatim>\<open>new CANNON.Body({mass, material, ...})\<close> with the library's defaults: a body of
  mass zero is static, position and velocities are zero, the orientation is the
  identity quaternion, and the body has no shape until \<^verbatim>\<open>addShape\<close>.
\<close>

definition new_Body :: "real \<Rightarrow> material \<Rightarrow> body" where
  "new_Body m mat =
     \<lparr>mass = m, btype = (if m \<le> 0 then STATIC else DYNAMIC), material = mat,
      position = Vec3 0 0 0, velocity = Vec3 0 0 0, angularVelocity = Vec3 0 0 0,
      quaternion = Quaternion 0 0 0 1, shapes = [],
      bodyLinearDamping = 0.01, bodyAngularDamping = 0.01, sleeping = False\<rparr>"

definition addShape :: "shape \<Rightarrow> body \<Rightarrow> body" where
  "addShape s b = b\<lparr>shapes := shapes b @ [s]\<rparr>"

text \<open>
  A \<^verbatim>\<open>CANNON.World\<close>: its gravity and the identifiers of the bodies added to it.
  \<^verbatim>\<open>addBody\<close> appends, \<^verbatim>\<open>removeBody\<close> takes the body out of the list.
\<close>

record world =
  world_gravity :: vec3
  world_bodies :: "ref list"

definition addBody :: "ref \<Rightarrow> world \<Rightarrow> world" where
  "addBody r w = w\<lparr>world_bodies := world_bodies w @ [r]\<rparr>"

definition removeBody :: "ref \<Rightarrow> world \<Rightarrow> world" where
  "removeBody r w = w\<lparr>world_bodies := remove1 r (world_bodies w)\<rparr>"

text \<open>
  \<^verbatim>\<open>world.step(timeStep, elapsed, maxSubSteps)\<close> is the physics library's integrator.
  It is a parameter of the model: any function that, from the world and the bodies,
  yields the bodies after the step.
\<close>

type_synonym stepper = "real \<Rightarrow> real \<Rightarrow> nat \<Rightarrow> world \<Rightarrow> (ref \<Rightarrow> body) \<Rightarrow> (ref \<Rightarrow> body)"

text \<open>The calls a frame makes to the browser and to the two libraries, in order.\<close>

datatype effect =
    RequestAnimationFrame
  | WorldStep real real nat
  | SetGravity vec3
  | MovePointerBox vec3
  | SyncBall nat
  | Render

text \<open>
  The configuration object. Both classes build it from defaults overridden by the
  caller's options; it is an open bag of keys, of which the model keeps those the two
  classes read. \<open>ballCount\<close> is a count and is modelled as a natural number.
\<close>

record config =
  ballCount :: nat
  ballRadius :: real
  gravity :: real
  restitution :: real
  friction :: real
  linearDamping :: real
  angularDamping :: real
  oscGravity :: real
  velocityFromPositionScale :: real
  zOffset :: real
  throwForce :: real

record options =
  opt_ballCount :: "nat option"
  opt_ballRadius :: "real option"
  opt_gravity :: "real option"
  opt_restitution :: "real option"
  opt_friction :: "real option"
  opt_linearDamping :: "real option"
  opt_angularDamping :: "real option"
  opt_oscGravity :: "real option"
  opt_velocityFromPositionScale :: "real option"
  opt_zOffset :: "real option"
  opt_throwForce :: "real option"

definition orDefault :: "'a option \<Rightarrow> 'a \<Rightarrow> 'a" where
  "orDefault v d = (case v of Some a \<Rightarrow> a | None \<Rightarrow> d)"

text \<open>What the browser window reports when a handler runs.\<close>

record window =
  innerWidth :: real
  innerHeight :: real
  hidden :: bool
  now :: real

section \<open>NeoballPhysics\<close>

record mesh =
  mesh_id :: ref
  mesh_position :: vec3
  mesh_quaternion :: quat
  mesh_textured :: bool

record pball =
  mesh :: mesh
  pbody :: ref
  pindex :: nat

record physics =
  np_isMobile :: bool
  np_config :: config
  np_balls :: "pball list"
  np_selectedBall :: "pball option"
  np_isDragging :: bool
  np_lastMouse :: vec2
  np_lastMouseTime :: real
  np_dragVelocity :: vec2
  np_frameCount :: nat
  np_lastFpsUpdate :: real
  np_fps :: nat
  np_scene :: "ref list"
  np_world :: world
  np_walls :: "ref list"
  np_store :: "ref \<Rightarrow> body"
  np_nextObject :: ref
  np_nextBody :: ref
  np_textureLoaded :: bool

text \<open>
  The constructor's configuration: \<^verbatim>\<open>options.key || default\<close>, then
  \<^verbatim>\<open>...options\<close>, which writes every key the caller gave over the default. The
  keys this class has no default for and never reads (\<open>oscGravity\<close>,
  \<open>velocityFromPositionScale\<close>, \<open>zOffset\<close>) are 0 unless given.
\<close>

definition np_mkConfig :: "bool \<Rightarrow> options \<Rightarrow> config" where
  "np_mkConfig mobile opts =
     \<lparr>ballCount = orDefault (opt_ballCount opts) (if mobile then 8 else 12),
      ballRadius = orDefault (opt_ballRadius opts) (if mobile then 35 else 45),
      gravity = orDefault (opt_gravity opts) (- 15),
      restitution = orDefault (opt_restitution opts) 0.7,
      friction = orDefault (opt_friction opts) 0.3,
      linearDamping = orDefault (opt_linearDamping opts) 0.1,
      angularDamping = orDefault (opt_angularDamping opts) 0.3,
      oscGravity = orDefault (opt_oscGravity opts) 0,
      velocityFromPositionScale = orDefault (opt_velocityFromPositionScale opts) 0,
      zOffset = orDefault (opt_zOffset opts) 0,
      throwForce = orDefault (opt_throwForce opts) 30\<rparr>"

text \<open>A device-orientation event; \<open>None\<close> is the null the browser may report.\<close>

record orientation =
  gamma :: "real option"
  beta :: "real option"

definition onDeviceOrientation :: "orientation \<Rightarrow> physics \<Rightarrow> physics" where
  "onDeviceOrientation event st =
     (case (gamma event, beta event) of
        (Some g, Some b) \<Rightarrow>
          (let gamma' = max (- 45) (min 45 g);
               beta' = max (- 45) (min 45 (b - 45));
               gravityX = gamma' * 0.4;
               gravityY = gravity (np_config st) + beta' * 0.3
           in st\<lparr>np_world := (np_world st)\<lparr>world_gravity := Vec3 gravityX (min gravityY (- 3)) 0\<rparr>\<rparr>)
      | _ \<Rightarrow> st)"

text \<open>Fresh identifiers for render objects and for bodies; a new body enters the store.\<close>

definition np_newBody :: "body \<Rightarrow> physics \<Rightarrow> ref \<times> physics" where
  "np_newBody b st =
     (np_nextBody st,
      st\<lparr>np_store := (np_store st)(np_nextBody st := b), np_nextBody := Suc (np_nextBody st)\<rparr>)"

definition np_sceneAdd :: "ref \<Rightarrow> physics \<Rightarrow> physics" where
  "np_sceneAdd r st = st\<lparr>np_scene := np_scene st @ [r]\<rparr>"

definition np_sceneRemove :: "ref \<Rightarrow> physics \<Rightarrow> physics" where
  "np_sceneRemove r st = st\<lparr>np_scene := remove1 r (np_scene st)\<rparr>"

definition np_worldAddBody :: "ref \<Rightarrow> physics \<Rightarrow> physics" where
  "np_worldAddBody r st = st\<lparr>np_world := addBody r (np_world st)\<rparr>"

text \<open>\<^verbatim>\<open>createScene\<close>: the scene starts with its three lights.\<close>

definition np_createScene :: "physics \<Rightarrow> physics" where
  "np_createScene st =
     (let n = np_nextObject st
      in st\<lparr>np_scene := [n, Suc n, Suc (Suc n)], np_nextObject := n + 3\<rparr>)"

definition np_createPhysicsWorld :: "physics \<Rightarrow> physics" where
  "np_createPhysicsWorld st =
     st\<lparr>np_world := \<lparr>world_gravity = Vec3 0 (gravity (np_config st)) 0, world_bodies = []\<rparr>\<rparr>"

text \<open>\<^verbatim>\<open>createBoundaries\<close>: floor, ceiling, left and right wall, each a static box.\<close>

definition np_wallConfigs :: "window \<Rightarrow> (vec3 \<times> vec3) list" where
  "np_wallConfigs win =
     (let width = innerWidth win; height = innerHeight win; wallThickness = 100
      in [(Vec3 0 (- height / 2 - wallThickness / 2) 0, Vec3 (width * 2) wallThickness 200),
          (Vec3 0 (height / 2 + wallThickness / 2) 0, Vec3 (width * 2) wallThickness 200),
          (Vec3 (- width / 2 - wallThickness / 2) 0 0, Vec3 wallThickness (height * 2) 200),
          (Vec3 (width / 2 + wallThickness / 2) 0 0, Vec3 wallThickness (height * 2) 200)])"

definition np_createWall :: "vec3 \<times> vec3 \<Rightarrow> physics \<Rightarrow> physics" where
  "np_createWall c st =
     (let shape = Box (Vec3 (vec_x (snd c) / 2) (vec_y (snd c) / 2) (vec_z (snd c) / 2));
          b = addShape shape ((new_Body 0 WallMaterial)\<lparr>position := fst c\<rparr>);
          (r, st1) = np_newBody b st;
          st2 = np_worldAddBody r st1
      in st2\<lparr>np_walls := np_walls st2 @ [r]\<rparr>)"

definition np_createBoundaries :: "window \<Rightarrow> physics \<Rightarrow> physics" where
  "np_createBoundaries win st = fold np_createWall (np_wallConfigs win) (st\<lparr>np_walls := []\<rparr>)"

text \<open>
  \<^verbatim>\<open>createBalls\<close>. \<open>rnd\<close> is the stream of values of \<^verbatim>\<open>Math.random()\<close>; the
  body of the loop draws ten of them, so ball \<open>i\<close> reads \<open>rnd (10 * i)\<close> to
  \<open>rnd (10 * i + 9)\<close>.
\<close>

definition np_createBall :: "(nat \<Rightarrow> real) \<Rightarrow> window \<Rightarrow> nat \<Rightarrow> physics \<Rightarrow> physics" where
  "np_createBall rnd win i st =
     (let width = innerWidth win; height = innerHeight win;
          x = (rnd (10 * i) - 0.5) * width * 0.7;
          y = rnd (10 * i + 1) * height * 0.4 + height * 0.1 - height / 2 + height / 2;
          z = 0;
          m = \<lparr>mesh_id = np_nextObject st, mesh_position = Vec3 x y z,
               mesh_quaternion = setFromEuler (rnd (10 * i + 2) * pi * 2)
                  (rnd (10 * i + 3) * pi * 2) (rnd (10 * i + 4) * pi * 2),
               mesh_textured = np_textureLoaded st\<rparr>;
          st1 = np_sceneAdd (mesh_id m) (st\<lparr>np_nextObject := Suc (np_nextObject st)\<rparr>);
          shape = Sphere (ballRadius (np_config st));
          b0 = (new_Body 1 BallMaterial)
                 \<lparr>bodyLinearDamping := linearDamping (np_config st),
                  bodyAngularDamping := angularDamping (np_config st)\<rparr>;
          b1 = (addShape shape b0)\<lparr>position := Vec3 x y z\<rparr>;
          b2 = b1\<lparr>velocity := Vec3 ((rnd (10 * i + 5) - 0.5) * 80) ((rnd (10 * i + 6) - 0.5) * 40) 0\<rparr>;
          b3 = b2\<lparr>angularVelocity := Vec3 ((rnd (10 * i + 7) - 0.5) * 3)
                  ((rnd (10 * i + 8) - 0.5) * 3) ((rnd (10 * i + 9) - 0.5) * 3)\<rparr>;
          (r, st2) = np_newBody b3 st1;
          st3 = np_worldAddBody r st2
      in st3\<lparr>np_balls := np_balls st3 @ [\<lparr>mesh = m, pbody = r, pindex = i\<rparr>]\<rparr>)"

definition np_createBalls :: "(nat \<Rightarrow> real) \<Rightarrow> window \<Rightarrow> physics \<Rightarrow> physics" where
  "np_createBalls rnd win st = fold (np_createBall rnd win) [0..<ballCount (np_config st)] st"

text \<open>
  The constructor with \<^verbatim>\<open>init\<close> up to the texture load: the state fields, the scene,
  the physics world and the walls. \<open>loaded\<close> tells whether the texture then loads.
\<close>

definition np_fields :: "bool \<Rightarrow> options \<Rightarrow> physics" where
  "np_fields mobile opts =
     \<lparr>np_isMobile = mobile, np_config = np_mkConfig mobile opts, np_balls = [],
      np_selectedBall = None, np_isDragging = False, np_lastMouse = Vector2 0 0,
      np_lastMouseTime = 0, np_dragVelocity = Vector2 0 0, np_frameCount = 0,
      np_lastFpsUpdate = 0, np_fps = 60, np_scene = [],
      np_world = \<lparr>world_gravity = Vec3 0 0 0, world_bodies = []\<rparr>, np_walls = [],
      np_store = (\<lambda>_. new_Body 0 WallMaterial), np_nextObject = 0, np_nextBody = 0,
      np_textureLoaded = False\<rparr>"

definition np_init :: "bool \<Rightarrow> options \<Rightarrow> window \<Rightarrow> physics" where
  "np_init mobile opts win =
     np_createBoundaries win (np_createPhysicsWorld (np_createScene (np_fields mobile opts)))"

definition np_loaded :: "(nat \<Rightarrow> real) \<Rightarrow> window \<Rightarrow> bool \<Rightarrow> physics \<Rightarrow> physics" where
  "np_loaded rnd win loaded st = np_createBalls rnd win (st\<lparr>np_textureLoaded := loaded\<rparr>)"

text \<open>
  Pointer events. \<^verbatim>\<open>getPointerPosition\<close> also yields normalised device coordinates,
  which only feed the raycaster; the raycast is the rendering library's, and its
  result (the identifiers of the objects hit, nearest first) comes with the event.
  The selected ball is kept by value: the handlers read only its body. The haptic
  feedback (\<^verbatim>\<open>vibrate\<close>) touches no state and is left out.
\<close>

record pointer_event =
  clientX :: real
  clientY :: real
  intersects :: "ref list"

definition getPointerPosition :: "window \<Rightarrow> real \<Rightarrow> real \<Rightarrow> vec2" where
  "getPointerPosition win cx cy = Vector2 (cx - innerWidth win / 2) (- (cy - innerHeight win / 2))"

definition setZero :: "vec3 \<Rightarrow> vec3" where
  "setZero v = Vec3 0 0 0"

definition onPointerDown :: "window \<Rightarrow> pointer_event \<Rightarrow> physics \<Rightarrow> physics" where
  "onPointerDown win event st =
     (let pos = getPointerPosition win (clientX event) (clientY event);
          st1 = st\<lparr>np_lastMouse := pos, np_lastMouseTime := now win\<rparr>
      in case intersects event of
           [] \<Rightarrow> st1
         | clickedMesh # _ \<Rightarrow>
            (let sel = find (\<lambda>b. mesh_id (mesh b) = clickedMesh) (np_balls st1);
                 st2 = st1\<lparr>np_selectedBall := sel, np_isDragging := True\<rparr>
             in case sel of
                  None \<Rightarrow> st2
                | Some ball \<Rightarrow>
                   (let b = np_store st2 (pbody ball);
                        b' = b\<lparr>sleeping := False, velocity := setZero (velocity b),
                               angularVelocity := setZero (angularVelocity b)\<rparr>
                    in st2\<lparr>np_store := (np_store st2)(pbody ball := b')\<rparr>)))"

definition onPointerMove :: "window \<Rightarrow> pointer_event \<Rightarrow> physics \<Rightarrow> physics" where
  "onPointerMove win event st =
     (case np_selectedBall st of
        None \<Rightarrow> st
      | Some ball \<Rightarrow>
         if \<not> np_isDragging st then st
         else
          (let dt = max (now win - np_lastMouseTime st) 1;
               pos = getPointerPosition win (clientX event) (clientY event);
               st1 = st\<lparr>np_dragVelocity :=
                          Vector2 ((v2_x pos - v2_x (np_lastMouse st)) / dt * 16)
                                  ((v2_y pos - v2_y (np_lastMouse st)) / dt * 16)\<rparr>;
               b = np_store st1 (pbody ball);
               dx = v2_x pos - vec_x (position b);
               dy = v2_y pos - vec_y (position b);
               b' = b\<lparr>velocity := (velocity b)\<lparr>vec_x := dx * 0.25, vec_y := dy * 0.25\<rparr>\<rparr>
           in st1\<lparr>np_store := (np_store st1)(pbody ball := b'),
                   np_lastMouse := pos, np_lastMouseTime := now win\<rparr>))"

text \<open>\<^verbatim>\<open>onPointerUp\<close>; \<open>r\<close> is the value of its one \<^verbatim>\<open>Math.random()\<close>.\<close>

definition onPointerUp :: "real \<Rightarrow> physics \<Rightarrow> physics" where
  "onPointerUp r st =
     (let st1 =
        (case np_selectedBall st of
           None \<Rightarrow> st
         | Some ball \<Rightarrow>
            if \<not> np_isDragging st then st
            else
             (let throwMultiplier = throwForce (np_config st);
                  maxVel = 50;
                  vx = max (- maxVel) (min maxVel (v2_x (np_dragVelocity st)));
                  vy = max (- maxVel) (min maxVel (v2_y (np_dragVelocity st)));
                  b = np_store st (pbody ball);
                  b' = b\<lparr>velocity := (velocity b)\<lparr>vec_x := vx * throwMultiplier,
                                                      vec_y := vy * throwMultiplier\<rparr>,
                         angularVelocity := Vec3 (vy * 0.15) (- vx * 0.15) ((r - 0.5) * 2)\<rparr>
              in st\<lparr>np_store := (np_store st)(pbody ball := b')\<rparr>))
      in st1\<lparr>np_selectedBall := None, np_isDragging := False, np_dragVelocity := Vector2 0 0\<rparr>)"

text \<open>
  \<^verbatim>\<open>animate\<close>: one frame. \<open>delta\<close> is what \<^verbatim>\<open>clock.getDelta()\<close> returns. The result
  is the new state with the calls the frame made, in order.
\<close>

definition np_sync :: "(ref \<Rightarrow> body) \<Rightarrow> pball \<Rightarrow> pball" where
  "np_sync store ball =
     ball\<lparr>mesh := (mesh ball)\<lparr>mesh_position := position (store (pbody ball)),
                               mesh_quaternion := quaternion (store (pbody ball))\<rparr>\<rparr>"

definition np_animate :: "stepper \<Rightarrow> window \<Rightarrow> real \<Rightarrow> physics \<Rightarrow> effect list \<times> physics" where
  "np_animate wstep win delta st =
     (if hidden win then ([RequestAnimationFrame], st)
      else
       (let timeStep = 1 / 60;
            maxSubSteps = (if np_isMobile st then 2 else 3);
            st1 = st\<lparr>np_store := wstep timeStep delta maxSubSteps (np_world st) (np_store st)\<rparr>;
            st2 = st1\<lparr>np_balls := map (np_sync (np_store st1)) (np_balls st1)\<rparr>;
            st3 = st2\<lparr>np_frameCount := Suc (np_frameCount st2)\<rparr>;
            st4 = (if now win - np_lastFpsUpdate st3 > 1000
                   then st3\<lparr>np_fps := np_frameCount st3, np_frameCount := 0,
                            np_lastFpsUpdate := now win\<rparr>
                   else st3)
        in ([RequestAnimationFrame, WorldStep timeStep delta maxSubSteps]
              @ map SyncBall [0..<length (np_balls st)] @ [Render], st4)))"

text \<open>
  The public API. \<^verbatim>\<open>addBall\<close> draws three random values. \<^verbatim>\<open>removeBall\<close> also
  disposes of the geometry and the material of the mesh it removed, which are not
  part of this state.
\<close>

definition addBall :: "(nat \<Rightarrow> real) \<Rightarrow> window \<Rightarrow> physics \<Rightarrow> nat \<times> physics" where
  "addBall rnd win st =
     (let width = innerWidth win; height = innerHeight win;
          x = (rnd 0 - 0.5) * width * 0.5;
          y = height / 3;
          m = \<lparr>mesh_id = np_nextObject st, mesh_position = Vec3 x y 0,
               mesh_quaternion = setFromEuler (rnd 1 * pi * 2) (rnd 2 * pi * 2) 0,
               mesh_textured = np_textureLoaded st\<rparr>;
          st1 = np_sceneAdd (mesh_id m) (st\<lparr>np_nextObject := Suc (np_nextObject st)\<rparr>);
          shape = Sphere (ballRadius (np_config st));
          b0 = (new_Body 1 BallMaterial)
                 \<lparr>bodyLinearDamping := linearDamping (np_config st),
                  bodyAngularDamping := angularDamping (np_config st)\<rparr>;
          b1 = (addShape shape b0)\<lparr>position := Vec3 x y 0\<rparr>;
          (r, st2) = np_newBody b1 st1;
          st3 = np_worldAddBody r st2;
          st4 = st3\<lparr>np_balls := np_balls st3 @ [\<lparr>mesh = m, pbody = r, pindex = length (np_balls st3)\<rparr>]\<rparr>
      in (length (np_balls st4), st4))"

definition removeBall :: "physics \<Rightarrow> nat \<times> physics" where
  "removeBall st =
     (if length (np_balls st) > 0
      then (let ball = last (np_balls st);
                st1 = st\<lparr>np_balls := butlast (np_balls st)\<rparr>;
                st2 = np_sceneRemove (mesh_id (mesh ball)) st1;
                st3 = st2\<lparr>np_world := removeBody (pbody ball) (np_world st2)\<rparr>
            in (length (np_balls st3), st3))
      else (length (np_balls st), st))"

definition getBallCount :: "physics \<Rightarrow> nat" where
  "getBallCount st = length (np_balls st)"

section \<open>NeoballBallsOverlay\<close>

subsection \<open>Textures\<close>

text \<open>
  An image as the texture loader delivers it. \<open>img_data\<close> is what
  \<^verbatim>\<open>getImageData(0, 0, sw, sh).data\<close> yields once the image is drawn on the source
  canvas: the RGBA bytes row by row, or \<open>None\<close> when the call throws.
\<close>

record image =
  img_width :: nat
  img_naturalWidth :: nat
  img_height :: nat
  img_naturalHeight :: nat
  img_data :: "nat list option"

record loaded_texture =
  tex_image :: "image option"

text \<open>
  The canvas that \<^verbatim>\<open>normalizeBallTexture\<close> paints: its size, the source rectangle and
  the destination rectangle of the one \<^verbatim>\<open>drawImage\<close>, and the circle of the
  \<^verbatim>\<open>destination-in\<close> mask.
\<close>

record canvas =
  canvas_width :: nat
  canvas_height :: nat
  cropX :: int
  cropY :: int
  cropW :: int
  cropH :: int
  dest_x :: real
  dest_y :: real
  dest_w :: real
  dest_h :: real
  arc_x :: real
  arc_y :: real
  arc_radius :: real

datatype texture = Plain loaded_texture | CanvasTexture canvas

definition OUT :: nat where
  "OUT = 512"

definition TARGET_DIAMETER :: int where
  "TARGET_DIAMETER = round (real OUT * 0.86)"

definition THRESH :: nat where
  "THRESH = 8"

text \<open>A read of the byte array; past its end JavaScript yields \<^verbatim>\<open>undefined\<close>, which is not above any threshold.\<close>

definition byteAt :: "nat list \<Rightarrow> nat \<Rightarrow> nat" where
  "byteAt data i = (if i < length data then data ! i else 0)"

text \<open>\<^verbatim>\<open>img.width || img.naturalWidth || 0\<close>, and the same for the height.\<close>

definition sourceWidth :: "image \<Rightarrow> nat" where
  "sourceWidth img = (if img_width img \<noteq> 0 then img_width img else img_naturalWidth img)"

definition sourceHeight :: "image \<Rightarrow> nat" where
  "sourceHeight img = (if img_height img \<noteq> 0 then img_height img else img_naturalHeight img)"

text \<open>The test of the scanning loops: the alpha byte of pixel \<open>(x, y)\<close> is above the threshold.\<close>

definition opaque :: "nat list \<Rightarrow> nat \<Rightarrow> nat \<Rightarrow> nat \<Rightarrow> bool" where
  "opaque data sw x y \<longleftrightarrow> byteAt data ((y * sw + x) * 4 + 3) > THRESH"

text \<open>The body of the two scanning loops, for the pixel in column \<open>x\<close> of row \<open>y\<close>.\<close>

definition scanPixel :: "nat list \<Rightarrow> nat \<Rightarrow> nat \<Rightarrow> nat \<Rightarrow> int \<times> int \<times> int \<times> int \<Rightarrow> int \<times> int \<times> int \<times> int" where
  "scanPixel data sw y x box =
     (case box of (x0, y0, x1, y1) \<Rightarrow>
        if opaque data sw x y
        then (if int x < x0 then int x else x0, if int y < y0 then int y else y0,
              if int x > x1 then int x else x1, if int y > y1 then int y else y1)
        else box)"

definition scanRow :: "nat list \<Rightarrow> nat \<Rightarrow> nat \<Rightarrow> int \<times> int \<times> int \<times> int \<Rightarrow> int \<times> int \<times> int \<times> int" where
  "scanRow data sw y box = fold (scanPixel data sw y) [0..<sw] box"

definition opaqueBox :: "nat list \<Rightarrow> nat \<Rightarrow> nat \<Rightarrow> int \<times> int \<times> int \<times> int" where
  "opaqueBox data sw sh = fold (scanRow data sw) [0..<sh] (int sw, int sh, - 1, - 1)"

text \<open>
  The pixels of the image whose alpha is above the threshold: what the scanning loops
  take the bounding box of.
\<close>

definition opaquePixels :: "nat list \<Rightarrow> nat \<Rightarrow> nat \<Rightarrow> (nat \<times> nat) set" where
  "opaquePixels data sw sh = {(x, y). x < sw \<and> y < sh \<and> opaque data sw x y}"

text \<open>
  \<^verbatim>\<open>normalizeBallTexture\<close>. \<open>sctx\<close> and \<open>octx\<close> tell whether the source canvas and the
  output canvas hand out a 2D context.
\<close>

definition normalizeBallTexture :: "bool \<Rightarrow> bool \<Rightarrow> loaded_texture \<Rightarrow> texture" where
  "normalizeBallTexture sctx octx tex =
     (case tex_image tex of
        None \<Rightarrow> Plain tex
      | Some img \<Rightarrow>
         (let sw = sourceWidth img;
              sh = sourceHeight img
          in if sw = 0 \<or> sh = 0 then Plain tex
             else if \<not> sctx then Plain tex
             else case img_data img of
                    None \<Rightarrow> Plain tex
                  | Some data \<Rightarrow>
                     (case opaqueBox data sw sh of (x0, y0, x1, y1) \<Rightarrow>
                        if x1 < x0 \<or> y1 < y0 then Plain tex
                        else
                         (let bw = x1 - x0 + 1;
                              bh = y1 - y0 + 1;
                              b = max bw bh;
                              cx = (real_of_int x0 + real_of_int x1) / 2;
                              cy = (real_of_int y0 + real_of_int y1) / 2;
                              cX = max 0 \<lfloor>cx - real_of_int b / 2\<rfloor>;
                              cY = max 0 \<lfloor>cy - real_of_int b / 2\<rfloor>;
                              cW = min (int sw - cX) b;
                              cH = min (int sh - cY) b
                          in if \<not> octx then Plain tex
                             else
                              (let scale = real_of_int TARGET_DIAMETER / real_of_int (max cW cH);
                                   dw = real_of_int cW * scale;
                                   dh = real_of_int cH * scale;
                                   dx = (real OUT - dw) / 2;
                                   dy = (real OUT - dh) / 2
                               in CanvasTexture
                                    \<lparr>canvas_width = OUT, canvas_height = OUT,
                                     cropX = cX, cropY = cY, cropW = cW, cropH = cH,
                                     dest_x = dx, dest_y = dy, dest_w = dw, dest_h = dh,
                                     arc_x = real OUT / 2, arc_y = real OUT / 2,
                                     arc_radius = real_of_int TARGET_DIAMETER / 2\<rparr>)))))"

definition BALL_TEXTURES :: "string list" where
  "BALL_TEXTURES =
     [''./balls/balls1.webp'', ''./balls/balls2.webp'', ''./balls/balls3.webp'',
      ''./balls/balls4.webp'', ''./balls/balls5.webp'', ''./balls/balls6.webp'']"

definition BALLS_PER_TEXTURE :: nat where
  "BALLS_PER_TEXTURE = 2"

text \<open>
  \<^verbatim>\<open>loadAllTextures\<close>. \<open>loader\<close> is the texture loader: for a path, the texture it
  loads, or \<open>None\<close> when the load fails and the promise resolves to null.
  \<^verbatim>\<open>filter(Boolean)\<close> keeps the textures that are not null.
\<close>

definition loadAllTextures :: "(string \<Rightarrow> loaded_texture option) \<Rightarrow> bool \<Rightarrow> bool \<Rightarrow> texture list" where
  "loadAllTextures loader sctx octx =
     concat (map (\<lambda>r. case r of None \<Rightarrow> [] | Some t \<Rightarrow> [t])
       (map (\<lambda>path. map_option (normalizeBallTexture sctx octx) (loader path)) BALL_TEXTURES))"

subsection \<open>The texture sequence\<close>

text \<open>
  \<^verbatim>\<open>buildTextureSequence\<close>: each texture index \<open>BALLS_PER_TEXTURE\<close> times, then a
  Fisher-Yates pass. \<open>shuffle rnd k i xs\<close> is the loop at index \<open>i\<close>, about to draw
  \<open>rnd k\<close>. \<^verbatim>\<open>Math.random()\<close> is at least 0 and below 1, so \<open>j\<close> is at most \<open>i\<close>
  and both reads and both writes of the swap are inside the array.
\<close>

fun shuffle :: "(nat \<Rightarrow> real) \<Rightarrow> nat \<Rightarrow> nat \<Rightarrow> nat list \<Rightarrow> nat list" where
  "shuffle rnd k 0 xs = xs"
| "shuffle rnd k (Suc i) xs =
     (let j = nat \<lfloor>rnd k * (real (Suc i) + 1)\<rfloor>
      in shuffle rnd (Suc k) i (xs[Suc i := xs ! j, j := xs ! Suc i]))"

definition buildTextureSequence :: "(nat \<Rightarrow> real) \<Rightarrow> texture list \<Rightarrow> nat list" where
  "buildTextureSequence rnd textures =
     (let sequence = concat (map (\<lambda>texIdx. replicate BALLS_PER_TEXTURE texIdx) [0..<length textures])
      in shuffle rnd 0 (length sequence - 1) sequence)"

subsection \<open>The overlay's state\<close>

record sprite =
  sprite_id :: ref
  sprite_position :: vec3
  sprite_scale :: vec3
  sprite_renderOrder :: nat
  sprite_map :: "texture option"
  sprite_rotation :: real

record ball =
  sprite :: sprite
  body :: ref
  index :: nat
  textureIndex :: nat

record viewport =
  vp_width :: real
  vp_height :: real

record overlay =
  ov_config :: config
  ov_balls :: "ball list"
  ov_textures :: "texture list"
  ov_t :: real
  ov_pointer :: vec2
  ov_hasPointer :: bool
  ov_viewport :: viewport
  ov_scene :: "ref list"
  ov_world :: world
  ov_walls :: "ref list"
  ov_pointerBox :: "ref option"
  ov_store :: "ref \<Rightarrow> body"
  ov_nextObject :: ref
  ov_nextBody :: ref

text \<open>
  The constructor's configuration: \<^verbatim>\<open>options.key ?? default\<close>, with
  \<^verbatim>\<open>gravity: 0\<close>, then \<^verbatim>\<open>...options\<close>. The default ball count is
  \<^verbatim>\<open>BALL_TEXTURES.length * BALLS_PER_TEXTURE\<close>. \<open>throwForce\<close>, which the overlay
  never reads, is 0 unless given.
\<close>

definition ov_mkConfig :: "options \<Rightarrow> config" where
  "ov_mkConfig opts =
     \<lparr>ballCount = orDefault (opt_ballCount opts) (length BALL_TEXTURES * BALLS_PER_TEXTURE),
      ballRadius = orDefault (opt_ballRadius opts) 1.0,
      gravity = orDefault (opt_gravity opts) 0,
      restitution = orDefault (opt_restitution opts) 0.3,
      friction = orDefault (opt_friction opts) 0.5,
      linearDamping = orDefault (opt_linearDamping opts) 0.4,
      angularDamping = orDefault (opt_angularDamping opts) 0.3,
      oscGravity = orDefault (opt_oscGravity opts) 0.015,
      velocityFromPositionScale = orDefault (opt_velocityFromPositionScale opts) 0.2,
      zOffset = orDefault (opt_zOffset opts) 0,
      throwForce = orDefault (opt_throwForce opts) 0\<rparr>"

definition ov_newBody :: "body \<Rightarrow> overlay \<Rightarrow> ref \<times> overlay" where
  "ov_newBody b st =
     (ov_nextBody st,
      st\<lparr>ov_store := (ov_store st)(ov_nextBody st := b), ov_nextBody := Suc (ov_nextBody st)\<rparr>)"

definition ov_worldAddBody :: "ref \<Rightarrow> overlay \<Rightarrow> overlay" where
  "ov_worldAddBody r st = st\<lparr>ov_world := addBody r (ov_world st)\<rparr>"

text \<open>\<^verbatim>\<open>createScene\<close>: the scene starts with its four lights.\<close>

definition ov_createScene :: "overlay \<Rightarrow> overlay" where
  "ov_createScene st =
     (let n = ov_nextObject st
      in st\<lparr>ov_scene := [n, n + 1, n + 2, n + 3], ov_nextObject := n + 4\<rparr>)"

definition ov_createPhysicsWorld :: "overlay \<Rightarrow> overlay" where
  "ov_createPhysicsWorld st =
     st\<lparr>ov_world := \<lparr>world_gravity = Vec3 0 0 0, world_bodies = []\<rparr>\<rparr>"

definition ov_wallConfigs :: "overlay \<Rightarrow> (vec3 \<times> vec3) list" where
  "ov_wallConfigs st =
     (let ballDiameter = ballRadius (ov_config st) * 2;
          boxSize = ballDiameter * 1.5;
          wallDepth = max boxSize ballDiameter * 1.1;
          t = wallDepth;
          w = vp_width (ov_viewport st);
          h = vp_height (ov_viewport st);
          z = zOffset (ov_config st)
      in [(Vec3 0 (- h / 2 - t / 2) z, Vec3 (w * 2) t t),
          (Vec3 0 (h / 2 + t / 2) z, Vec3 (w * 2) t t),
          (Vec3 (- w / 2 - t / 2) 0 z, Vec3 t (h * 2) t),
          (Vec3 (w / 2 + t / 2) 0 z, Vec3 t (h * 2) t),
          (Vec3 0 0 (z - t), Vec3 (w * 2) (h * 2) t),
          (Vec3 0 0 (z + t), Vec3 (w * 2) (h * 2) t)])"

definition ov_createWall :: "vec3 \<times> vec3 \<Rightarrow> overlay \<Rightarrow> overlay" where
  "ov_createWall c st =
     (let b = addShape (Box (Vec3 (vec_x (snd c) / 2) (vec_y (snd c) / 2) (vec_z (snd c) / 2)))
                ((new_Body 0 WallMaterial)\<lparr>position := fst c\<rparr>);
          (r, st1) = ov_newBody b st;
          st2 = ov_worldAddBody r st1
      in st2\<lparr>ov_walls := ov_walls st2 @ [r]\<rparr>)"

definition ov_createBoundaries :: "overlay \<Rightarrow> overlay" where
  "ov_createBoundaries st = fold ov_createWall (ov_wallConfigs st) (st\<lparr>ov_walls := []\<rparr>)"

definition ov_createPointerCollider :: "overlay \<Rightarrow> overlay" where
  "ov_createPointerCollider st =
     (let ballDiameter = ballRadius (ov_config st) * 2;
          boxSize = ballDiameter * 1.5;
          shape = Box (Vec3 (boxSize / 2) (boxSize / 2) ballDiameter);
          b0 = (new_Body 0 PointerMaterial)\<lparr>btype := KINEMATIC\<rparr>;
          b1 = (addShape shape b0)\<lparr>position := Vec3 99999 99999 (zOffset (ov_config st))\<rparr>;
          (r, st1) = ov_newBody b1 st
      in ov_worldAddBody r (st1\<lparr>ov_pointerBox := Some r\<rparr>))"

text \<open>
  The constructor with \<^verbatim>\<open>init\<close> up to the texture load. \<open>vp\<close> is the viewport that
  \<^verbatim>\<open>setViewport\<close> computes from the camera and the window.
\<close>

definition ov_fields :: "options \<Rightarrow> overlay" where
  "ov_fields opts =
     \<lparr>ov_config = ov_mkConfig opts, ov_balls = [], ov_textures = [], ov_t = 0,
      ov_pointer = Vector2 0 0, ov_hasPointer = False,
      ov_viewport = \<lparr>vp_width = 0, vp_height = 0\<rparr>, ov_scene = [],
      ov_world = \<lparr>world_gravity = Vec3 0 0 0, world_bodies = []\<rparr>, ov_walls = [],
      ov_pointerBox = None, ov_store = (\<lambda>_. new_Body 0 WallMaterial),
      ov_nextObject = 0, ov_nextBody = 0\<rparr>"

definition ov_init :: "options \<Rightarrow> viewport \<Rightarrow> overlay" where
  "ov_init opts vp =
     ov_createPointerCollider (ov_createBoundaries (ov_createPhysicsWorld
       ((ov_createScene (ov_fields opts))\<lparr>ov_viewport := vp\<rparr>)))"

subsection \<open>Creating the balls\<close>

text \<open>
  \<^verbatim>\<open>getRandomPositionForBody\<close>: rejection sampling in a \<^verbatim>\<open>for (;;)\<close> loop. It draws
  \<open>rnd k\<close> and \<open>rnd (k + 1)\<close> for a candidate and returns it, with the index of the
  next draw, when it is no closer than \<open>safeDistance\<close> to any existing position; the
  loop need not end, and \<open>None\<close> is the run that never returns.
\<close>

definition farEnough :: "real \<Rightarrow> real \<Rightarrow> real \<Rightarrow> (real \<times> real) list \<Rightarrow> bool" where
  "farEnough x y safeDistance existing =
     list_all (\<lambda>p. \<not> ((fst p - x) * (fst p - x) + (snd p - y) * (snd p - y)
                          < safeDistance * safeDistance)) existing"

definition candidate :: "viewport \<Rightarrow> real \<Rightarrow> real \<Rightarrow> real \<Rightarrow> real \<times> real" where
  "candidate vp r u v =
     (let w = vp_width vp; h = vp_height vp;
          padX = max (r * 2) (w * 0.2);
          padY = max (r * 2) (h * 0.2)
      in ((u * (w - padX * 2) + padX) - w / 2, (v * (h - padY * 2) + padY) - h / 2))"

partial_function (option) getRandomPositionForBody ::
  "(nat \<Rightarrow> real) \<Rightarrow> viewport \<Rightarrow> real \<Rightarrow> (real \<times> real) list \<Rightarrow> real \<Rightarrow> nat \<Rightarrow> ((real \<times> real) \<times> nat) option" where
  "getRandomPositionForBody rnd vp r existing safeDistance k =
     (if farEnough (fst (candidate vp r (rnd k) (rnd (k + 1))))
           (snd (candidate vp r (rnd k) (rnd (k + 1)))) safeDistance existing
      then Some (candidate vp r (rnd k) (rnd (k + 1)), k + 2)
      else getRandomPositionForBody rnd vp r existing safeDistance (k + 2))"

text \<open>\<^verbatim>\<open>this.textures[textureIndex] || this.textures[0]\<close>.\<close>

definition pickTexture :: "texture list \<Rightarrow> nat \<Rightarrow> texture option" where
  "pickTexture textures tIndex =
     (if tIndex < length textures then Some (textures ! tIndex)
      else if 0 < length textures then Some (textures ! 0)
      else None)"

text \<open>
  The body of the loop of \<^verbatim>\<open>createBalls\<close> after the position \<open>(x, y)\<close> is found;
  \<open>u\<close> and \<open>v\<close> are the two random values of the initial velocity.
\<close>

definition ov_createBall :: "nat \<Rightarrow> nat \<Rightarrow> real \<Rightarrow> real \<Rightarrow> real \<Rightarrow> real \<Rightarrow> overlay \<Rightarrow> overlay" where
  "ov_createBall i tIndex x y u v st =
     (let r = ballRadius (ov_config st);
          z = zOffset (ov_config st);
          s = \<lparr>sprite_id = ov_nextObject st, sprite_position = Vec3 x y z,
               sprite_scale = Vec3 (r * 2) (r * 2) 1,
               sprite_renderOrder = (if zOffset (ov_config st) \<ge> 0 then 2 else 1),
               sprite_map = pickTexture (ov_textures st) tIndex,
               sprite_rotation = 0\<rparr>;
          st1 = st\<lparr>ov_scene := ov_scene st @ [sprite_id s], ov_nextObject := Suc (ov_nextObject st)\<rparr>;
          b0 = (new_Body 50 BallMaterial)
                 \<lparr>bodyLinearDamping := linearDamping (ov_config st),
                  bodyAngularDamping := angularDamping (ov_config st)\<rparr>;
          b1 = (addShape (Sphere r) b0)\<lparr>position := Vec3 x y z\<rparr>;
          vx = (- 0.5 + u) * x * 2 * velocityFromPositionScale (ov_config st);
          vy = (- 0.5 + v) * y * 2 * velocityFromPositionScale (ov_config st);
          b2 = b1\<lparr>velocity := Vec3 vx vy 0\<rparr>;
          (rf, st2) = ov_newBody b2 st1;
          st3 = ov_worldAddBody rf st2
      in st3\<lparr>ov_balls := ov_balls st3 @ [\<lparr>sprite = s, body = rf, index = i, textureIndex = tIndex\<rparr>]\<rparr>)"

text \<open>
  The loop of \<^verbatim>\<open>createBalls\<close>: \<open>n\<close> iterations are left, \<open>i\<close> is the loop index,
  \<open>k\<close> the index of the next random draw. The loop runs at most as often as the
  texture sequence is long, so the read \<^verbatim>\<open>textureSequence[i]\<close> is inside the array.
\<close>

fun ov_createBalls_loop ::
  "(nat \<Rightarrow> real) \<Rightarrow> nat list \<Rightarrow> real \<Rightarrow> nat \<Rightarrow> nat \<Rightarrow> nat \<Rightarrow> (real \<times> real) list \<Rightarrow> overlay \<Rightarrow> overlay option" where
  "ov_createBalls_loop rnd textureSequence safeDistance 0 i k positions st = Some st"
| "ov_createBalls_loop rnd textureSequence safeDistance (Suc n) i k positions st =
     (case getRandomPositionForBody rnd (ov_viewport st) (ballRadius (ov_config st))
             positions safeDistance k of
        None \<Rightarrow> None
      | Some ((x, y), k') \<Rightarrow>
          ov_createBalls_loop rnd textureSequence safeDistance n (Suc i) (k' + 2)
            (positions @ [(x, y)])
            (ov_createBall i (textureSequence ! i) x y (rnd k') (rnd (k' + 1)) st))"

definition ov_createBalls :: "(nat \<Rightarrow> real) \<Rightarrow> overlay \<Rightarrow> overlay option" where
  "ov_createBalls rnd st =
     (let r = ballRadius (ov_config st);
          ballDiameter = r * 2;
          boxSize = ballDiameter * 1.5;
          safeDistance = max boxSize ballDiameter * 1.25;
          textureSequence = buildTextureSequence rnd (ov_textures st);
          n = min (ballCount (ov_config st)) (length textureSequence)
      in ov_createBalls_loop rnd textureSequence safeDistance n 0
           (length textureSequence - 1) [] st)"

text \<open>
  \<^verbatim>\<open>init\<close> from the texture load on: the textures that loaded, then the balls.
\<close>

definition ov_start ::
  "(nat \<Rightarrow> real) \<Rightarrow> (string \<Rightarrow> loaded_texture option) \<Rightarrow> bool \<Rightarrow> bool \<Rightarrow> overlay \<Rightarrow> overlay option" where
  "ov_start rnd loader sctx octx st =
     ov_createBalls rnd (st\<lparr>ov_textures := loadAllTextures loader sctx octx\<rparr>)"

subsection \<open>Pointer and frame\<close>

text \<open>\<^verbatim>\<open>_onMove\<close>, with the pointer already mapped to world coordinates.\<close>

definition ov_onMove :: "vec2 \<Rightarrow> overlay \<Rightarrow> overlay" where
  "ov_onMove p st = st\<lparr>ov_pointer := p, ov_hasPointer := True\<rparr>"

definition ov_sync :: "real \<Rightarrow> (ref \<Rightarrow> body) \<Rightarrow> ball \<Rightarrow> ball" where
  "ov_sync z store b =
     b\<lparr>sprite := (sprite b)
         \<lparr>sprite_position := Vec3 (vec_x (position (store (body b))))
                                  (vec_y (position (store (body b)))) z,
          sprite_rotation := sprite_rotation (sprite b)
             + (vec_x (velocity (store (body b))) + vec_y (velocity (store (body b)))) * 0.0005\<rparr>\<rparr>"

definition ov_movePointerBox :: "overlay \<Rightarrow> overlay" where
  "ov_movePointerBox st =
     (case ov_pointerBox st of
        None \<Rightarrow> st
      | Some r \<Rightarrow>
         (let b = ov_store st r;
              b' = (if \<not> ov_hasPointer st
                    then b\<lparr>position := Vec3 99999 99999 (zOffset (ov_config st))\<rparr>
                    else b\<lparr>position := Vec3 (v2_x (ov_pointer st)) (v2_y (ov_pointer st))
                                           (zOffset (ov_config st)),
                           quaternion := Quaternion (sin (ov_t st)) (cos (ov_t st)) 0 0\<rparr>)
          in st\<lparr>ov_store := (ov_store st)(r := b')\<rparr>))"

text \<open>
  \<^verbatim>\<open>animate\<close>: one frame of the overlay; \<open>delta\<close> is what \<^verbatim>\<open>clock.getDelta()\<close>
  returns.
\<close>

definition ov_animate :: "stepper \<Rightarrow> real \<Rightarrow> overlay \<Rightarrow> effect list \<times> overlay" where
  "ov_animate wstep delta st =
     (let dt = min delta 0.1;
          st1 = st\<lparr>ov_store := wstep (1 / 60) dt 3 (ov_world st) (ov_store st)\<rparr>;
          st2 = st1\<lparr>ov_t := ov_t st1 + dt\<rparr>;
          g = Vec3 (sin (0.5 * ov_t st2) * oscGravity (ov_config st2))
                   (cos (0.4 * ov_t st2) * oscGravity (ov_config st2)) 0;
          st3 = st2\<lparr>ov_world := (ov_world st2)\<lparr>world_gravity := g\<rparr>\<rparr>;
          st4 = ov_movePointerBox st3;
          st5 = st4\<lparr>ov_balls := map (ov_sync (zOffset (ov_config st4)) (ov_store st4)) (ov_balls st4)\<rparr>
      in ([RequestAnimationFrame, WorldStep (1 / 60) dt 3, SetGravity g]
            @ (case ov_pointerBox st of None \<Rightarrow> []
               | Some r \<Rightarrow> [MovePointerBox (position (ov_store st4 r))])
            @ map SyncBall [0..<length (ov_balls st)] @ [Render], st5))"

text \<open>Concrete inputs on which the theorems below are exercised.\<close>

definition no_options :: options where
  "no_options =
     \<lparr>opt_ballCount = None, opt_ballRadius = None, opt_gravity = None,
      opt_restitution = None, opt_friction = None, opt_linearDamping = None,
      opt_angularDamping = None, opt_oscGravity = None,
      opt_velocityFromPositionScale = None, opt_zOffset = None, opt_throwForce = None\<rparr>"

definition demo_window :: window where
  "demo_window = \<lparr>innerWidth = 800, innerHeight = 600, hidden = False, now = 1000\<rparr>"

text \<open>
  A NeoballPhysics instance configured with no initial balls, after its
  initialisation and one \<^verbatim>\<open>addBall\<close>.
\<close>

definition np_empty :: physics where
  "np_empty =
     np_loaded (\<lambda>_. 1 / 2) demo_window False
       (np_init False (no_options\<lparr>opt_ballCount := Some 0\<rparr>) demo_window)"

definition np_demo :: physics where
  "np_demo = snd (addBall (\<lambda>_. 1 / 2) demo_window np_empty)"

definition demo_ball :: pball where
  "demo_ball =
     \<lparr>mesh = \<lparr>mesh_id = 3, mesh_position = Vec3 0 200 0,
               mesh_quaternion = Quaternion 0 0 1 0, mesh_textured = False\<rparr>,
      pbody = 4, pindex = 0\<rparr>"

definition demo_down :: pointer_event where
  "demo_down = \<lparr>clientX = 400, clientY = 100, intersects = [3]\<rparr>"

definition demo_move :: pointer_event where
  "demo_move = \<lparr>clientX = 500, clientY = 100, intersects = []\<rparr>"

definition np_demo_down :: physics where
  "np_demo_down = onPointerDown demo_window demo_down np_demo"

definition np_demo_move :: physics where
  "np_demo_move = onPointerMove (demo_window\<lparr>now := 1016\<rparr>) demo_move np_demo_down"

definition demo_textures :: "texture list" where
  "demo_textures = [Plain \<lparr>tex_image = None\<rparr>, Plain \<lparr>tex_image = None\<rparr>]"

text \<open>A stepper that leaves every body where it is, and one that lifts every body by one unit of z.\<close>

definition idle_step :: stepper where
  "idle_step timeStep dt maxSubSteps w store = store"

definition lift_step :: stepper where
  "lift_step timeStep dt maxSubSteps w store =
     (\<lambda>r. (store r)\<lparr>position := (position (store r))\<lparr>vec_z := vec_z (position (store r)) + 1\<rparr>\<rparr>)"

text \<open>
  An overlay on a 30 by 20 viewport with the default configuration, of whose six
  textures only the first loads; the random stream makes the first candidate position
  of the second ball collide with the first ball.
\<close>

definition demo_viewport :: viewport where
  "demo_viewport = \<lparr>vp_width = 30, vp_height = 20\<rparr>"

definition demo_loader :: "string \<Rightarrow> loaded_texture option" where
  "demo_loader path = (if path = ''./balls/balls1.webp'' then Some \<lparr>tex_image = None\<rparr> else None)"


definition ov_empty :: overlay where
  "ov_empty = ov_init no_options demo_viewport"

definition ov_demo :: overlay where
  "ov_demo =
     ov_createBall 1 0 (- 9) 0 (1 / 2) (1 / 2)
       (ov_createBall 0 0 0 0 (1 / 2) (1 / 2)
          (ov_empty\<lparr>ov_textures := [Plain \<lparr>tex_image = None\<rparr>]\<rparr>))"

text \<open>An overlay configured with a negative \<open>oscGravity\<close>.\<close>

definition ov_negative :: overlay where
  "ov_negative = ov_init (no_options\<lparr>opt_oscGravity := Some (- 1)\<rparr>) demo_viewport"



text \<open>A NeoballPhysics instance on a mobile device, with the default configuration.\<close>

definition np_mobile :: physics where
  "np_mobile = np_loaded (\<lambda>_. 1 / 2) demo_window True (np_init True no_options demo_window)"


text \<open>An overlay whose balls are too large for two of them to be placed.\<close>

definition ov_crowded :: overlay where
  "ov_crowded = ov_init (no_options\<lparr>opt_ballRadius := Some 10\<rparr>) demo_viewport"



definition corner_image :: image where
  "corner_image =
     \<lparr>img_width = 2, img_naturalWidth = 2, img_height = 2, img_naturalHeight = 2,
      img_data = Some [0, 0, 0, 0, 0, 0, 0, 0, 0, 0, 0, 0, 0, 0, 0, 255]\<rparr>"



section \<open>Device orientation\<close>

text \<open>
  C5. For every device-orientation event with non-null gamma and beta, the gravity that
  NeoballPhysics sets has its x component in [-18, 18] (the clamped gamma times 0.4)
  and its y component at most -3; an event whose gamma or beta is null leaves the
  state, and so the gravity, as it was.
\<close>

theorem onDeviceOrientation_gravity:
  "(gamma event = Some g \<and> beta event = Some b \<longrightarrow>
      vec_x (world_gravity (np_world (onDeviceOrientation event st))) = max (- 45) (min 45 g) * 0.4
    \<and> - 18 \<le> vec_x (world_gravity (np_world (onDeviceOrientation event st)))
    \<and> vec_x (world_gravity (np_world (onDeviceOrientation event st))) \<le> 18
    \<and> vec_y (world_gravity (np_world (onDeviceOrientation event st))) \<le> - 3)
   \<and> (gamma event = None \<or> beta event = None \<longrightarrow> onDeviceOrientation event st = st)"
  by (auto simp: onDeviceOrientation_def Let_def split: option.splits)

theorem onDeviceOrientation_gravity_witness:
  "gamma \<lparr>gamma = Some 90, beta = Some 0\<rparr> = Some 90
   \<and> beta \<lparr>gamma = Some 90, beta = Some 0\<rparr> = Some 0
   \<and> vec_x (world_gravity (np_world
        (onDeviceOrientation \<lparr>gamma = Some 90, beta = Some 0\<rparr> np_mobile))) = 18
   \<and> vec_y (world_gravity (np_world
        (onDeviceOrientation \<lparr>gamma = Some 90, beta = Some 0\<rparr> np_mobile))) \<le> - 3
   \<and> gamma \<lparr>gamma = None, beta = Some 0\<rparr> = None
   \<and> onDeviceOrientation \<lparr>gamma = None, beta = Some 0\<rparr> np_mobile = np_mobile"
  using onDeviceOrientation_gravity [of "\<lparr>gamma = Some 90, beta = Some 0\<rparr>" 90 0 np_mobile]
        onDeviceOrientation_gravity [of "\<lparr>gamma = None, beta = Some 0\<rparr>" 0 0 np_mobile]
  by simp

section \<open>Adding and removing balls\<close>

lemma np_empty_fields:
  "np_balls np_empty = [] \<and> np_scene np_empty = [0, 1, 2]
   \<and> world_bodies (np_world np_empty) = [0, 1, 2, 3]
   \<and> np_nextObject np_empty = 3 \<and> np_nextBody np_empty = 4
   \<and> np_textureLoaded np_empty = False
   \<and> np_isDragging np_empty = False \<and> np_selectedBall np_empty = None
   \<and> throwForce (np_config np_empty) = 30 \<and> ballRadius (np_config np_empty) = 45"
  by (simp add: np_empty_def np_loaded_def np_createBalls_def np_init_def
      np_createBoundaries_def np_wallConfigs_def np_createWall_def np_newBody_def
      np_worldAddBody_def addBody_def np_createPhysicsWorld_def np_createScene_def
      np_fields_def np_mkConfig_def orDefault_def no_options_def Let_def)

lemma np_demo_balls:
  "np_balls np_demo = [demo_ball]"
  by (simp add: np_demo_def addBall_def np_empty_fields demo_window_def Let_def
      np_sceneAdd_def np_newBody_def np_worldAddBody_def setFromEuler_def demo_ball_def)

lemma np_demo_scene_world:
  "np_scene np_demo = [0, 1, 2, 3] \<and> world_bodies (np_world np_demo) = [0, 1, 2, 3, 4]"
  by (simp add: np_demo_def addBall_def np_empty_fields demo_window_def Let_def
      np_sceneAdd_def np_newBody_def np_worldAddBody_def addBody_def)

text \<open>
  C9. \<^verbatim>\<open>addBall\<close> returns the previous ball count plus one, which is the count
  afterwards; \<^verbatim>\<open>getBallCount\<close> is the length of the ball list; \<^verbatim>\<open>removeBall\<close> on a
  non-empty list returns the previous count minus one and changes the state in
  exactly three places: the ball list loses its last ball, the scene loses that
  ball's mesh and the world loses that ball's body; on an empty list it returns 0 and
  the state is unchanged.
\<close>

theorem addBall_removeBall_count:
  "fst (addBall rnd win st) = getBallCount st + 1
   \<and> getBallCount (snd (addBall rnd win st)) = getBallCount st + 1
   \<and> getBallCount st = length (np_balls st)
   \<and> (np_balls st \<noteq> [] \<longrightarrow>
        fst (removeBall st) = getBallCount st - 1
      \<and> snd (removeBall st) =
          st\<lparr>np_balls := butlast (np_balls st),
             np_scene := remove1 (mesh_id (mesh (last (np_balls st)))) (np_scene st),
             np_world := (np_world st)\<lparr>world_bodies :=
                remove1 (pbody (last (np_balls st))) (world_bodies (np_world st))\<rparr>\<rparr>)
   \<and> (np_balls st = [] \<longrightarrow> removeBall st = (0, st))"
  by (simp add: addBall_def removeBall_def getBallCount_def Let_def np_sceneAdd_def
      np_sceneRemove_def np_newBody_def np_worldAddBody_def addBody_def removeBody_def
      split: prod.splits)

theorem addBall_removeBall_count_witness:
  "np_balls np_demo \<noteq> []
   \<and> fst (removeBall np_demo) = 0
   \<and> np_balls (snd (removeBall np_demo)) = []
   \<and> np_scene (snd (removeBall np_demo)) = [0, 1, 2]
   \<and> world_bodies (np_world (snd (removeBall np_demo))) = [0, 1, 2, 3]
   \<and> fst (addBall (\<lambda>_. 0) demo_window np_demo) = 2
   \<and> removeBall np_empty = (0, np_empty)"
proof -
  have ne: "np_balls np_demo \<noteq> []"
    by (simp add: np_demo_balls)
  have e: "np_balls np_empty = []"
    by (simp add: np_empty_fields)
  show ?thesis
    using addBall_removeBall_count [of "\<lambda>_. 0" demo_window np_demo] ne
          addBall_removeBall_count [of "\<lambda>_. 0" demo_window np_empty] e
    by (simp add: np_demo_balls np_demo_scene_world getBallCount_def demo_ball_def)
qed

section \<open>Dragging and throwing\<close>

lemma np_demo_fields:
  "np_isDragging np_demo = False \<and> np_selectedBall np_demo = None
   \<and> throwForce (np_config np_demo) = 30"
  by (simp add: np_demo_def addBall_def np_empty_fields demo_window_def Let_def
      np_sceneAdd_def np_newBody_def np_worldAddBody_def)

lemma np_demo_store:
  "position (np_store np_demo 4) = Vec3 0 200 0
   \<and> velocity (np_store np_demo 4) = Vec3 0 0 0
   \<and> quaternion (np_store np_demo 4) = Quaternion 0 0 0 1"
  by (simp add: np_demo_def addBall_def np_empty_fields demo_window_def Let_def
      np_sceneAdd_def np_newBody_def np_worldAddBody_def new_Body_def addShape_def)

text \<open>
  C4. The balls of NeoballPhysics are draggable.
  Pointer-down: when the nearest object the raycast hits is the mesh of a ball, that
  ball becomes the selection, dragging starts, and the linear and angular velocity of
  its body are zero.
  Pointer-move while dragging a selected ball: the x and y components of the body's
  velocity become 0.25 times the displacement between body and cursor (cursor minus
  body position); the z component is left as it was.
  Pointer-up while dragging a selected ball: each component of the drag velocity is
  clamped to [-50, 50] and multiplied by \<open>throwForce\<close>, and these are the x and y
  components of the ball's velocity. After every pointer-up there is no selection and
  no dragging.
\<close>

theorem drag_and_throw:
  "(intersects event = m # ms \<and> find (\<lambda>b. mesh_id (mesh b) = m) (np_balls st) = Some ball \<longrightarrow>
      np_selectedBall (onPointerDown win event st) = Some ball
    \<and> np_isDragging (onPointerDown win event st)
    \<and> velocity (np_store (onPointerDown win event st) (pbody ball)) = Vec3 0 0 0
    \<and> angularVelocity (np_store (onPointerDown win event st) (pbody ball)) = Vec3 0 0 0)
   \<and> (np_isDragging st \<and> np_selectedBall st = Some ball \<longrightarrow>
      vec_x (velocity (np_store (onPointerMove win event st) (pbody ball)))
        = 0.25 * (v2_x (getPointerPosition win (clientX event) (clientY event))
                   - vec_x (position (np_store st (pbody ball))))
    \<and> vec_y (velocity (np_store (onPointerMove win event st) (pbody ball)))
        = 0.25 * (v2_y (getPointerPosition win (clientX event) (clientY event))
                   - vec_y (position (np_store st (pbody ball))))
    \<and> vec_z (velocity (np_store (onPointerMove win event st) (pbody ball)))
        = vec_z (velocity (np_store st (pbody ball))))
   \<and> (np_isDragging st \<and> np_selectedBall st = Some ball \<longrightarrow>
      vec_x (velocity (np_store (onPointerUp r st) (pbody ball)))
        = max (- 50) (min 50 (v2_x (np_dragVelocity st))) * throwForce (np_config st)
    \<and> vec_y (velocity (np_store (onPointerUp r st) (pbody ball)))
        = max (- 50) (min 50 (v2_y (np_dragVelocity st))) * throwForce (np_config st))
   \<and> np_selectedBall (onPointerUp r st) = None
   \<and> \<not> np_isDragging (onPointerUp r st)"
  by (simp add: onPointerDown_def onPointerMove_def onPointerUp_def Let_def setZero_def
      split: option.splits)

lemma np_demo_find:
  "find (\<lambda>b. mesh_id (mesh b) = 3) (np_balls np_demo) = Some demo_ball"
  by (simp add: np_demo_balls demo_ball_def)

lemma np_demo_down_fields:
  "np_isDragging np_demo_down \<and> np_selectedBall np_demo_down = Some demo_ball
   \<and> np_lastMouse np_demo_down = Vector2 0 200 \<and> np_lastMouseTime np_demo_down = 1000
   \<and> position (np_store np_demo_down 4) = Vec3 0 200 0
   \<and> throwForce (np_config np_demo_down) = 30"
  by (simp add: np_demo_down_def onPointerDown_def demo_down_def np_demo_find Let_def
      demo_ball_def np_demo_store np_demo_fields getPointerPosition_def demo_window_def)

lemma np_demo_move_fields:
  "np_isDragging np_demo_move \<and> np_selectedBall np_demo_move = Some demo_ball
   \<and> np_dragVelocity np_demo_move = Vector2 100 0
   \<and> throwForce (np_config np_demo_move) = 30"
  by (simp add: np_demo_move_def onPointerMove_def np_demo_down_fields Let_def
      demo_move_def getPointerPosition_def demo_window_def demo_ball_def)

theorem drag_and_throw_witness:
  "intersects demo_down = [3]
   \<and> np_selectedBall np_demo_down = Some demo_ball
   \<and> velocity (np_store np_demo_down 4) = Vec3 0 0 0
   \<and> angularVelocity (np_store np_demo_down 4) = Vec3 0 0 0
   \<and> vec_x (velocity (np_store np_demo_move 4)) = 25
   \<and> vec_y (velocity (np_store np_demo_move 4)) = 0
   \<and> vec_x (velocity (np_store (onPointerUp 0 np_demo_move) 4)) = 1500
   \<and> vec_y (velocity (np_store (onPointerUp 0 np_demo_move) 4)) = 0
   \<and> np_selectedBall (onPointerUp 0 np_demo_move) = None
   \<and> \<not> np_isDragging (onPointerUp 0 np_demo_move)"
proof -
  have hit: "intersects demo_down = 3 # [] \<and>
      find (\<lambda>b. mesh_id (mesh b) = 3) (np_balls np_demo) = Some demo_ball"
    by (simp add: demo_down_def np_demo_find)
  have down: "np_isDragging np_demo_down \<and> np_selectedBall np_demo_down = Some demo_ball"
    by (simp add: np_demo_down_fields)
  have move: "np_isDragging np_demo_move \<and> np_selectedBall np_demo_move = Some demo_ball"
    by (simp add: np_demo_move_fields)
  have pos: "getPointerPosition (demo_window\<lparr>now := 1016\<rparr>) (clientX demo_move) (clientY demo_move)
      = Vector2 100 200"
    by (simp add: getPointerPosition_def demo_window_def demo_move_def)
  have b0: "pbody demo_ball = 4"
    by (simp add: demo_ball_def)
  have 1: "velocity (np_store np_demo_down 4) = Vec3 0 0 0
      \<and> angularVelocity (np_store np_demo_down 4) = Vec3 0 0 0"
    using drag_and_throw [of demo_down 3 "[]" np_demo demo_ball demo_window 0] hit
    unfolding np_demo_down_def [symmetric] b0 by blast
  have 2: "vec_x (velocity (np_store np_demo_move 4)) = 25
      \<and> vec_y (velocity (np_store np_demo_move 4)) = 0"
    using drag_and_throw [of demo_move 0 "[]" np_demo_down demo_ball "demo_window\<lparr>now := 1016\<rparr>" 0] down
    unfolding np_demo_move_def [symmetric] b0 pos by (simp add: np_demo_down_fields)
  have 3: "vec_x (velocity (np_store (onPointerUp 0 np_demo_move) 4)) = 1500
      \<and> vec_y (velocity (np_store (onPointerUp 0 np_demo_move) 4)) = 0
      \<and> np_selectedBall (onPointerUp 0 np_demo_move) = None
      \<and> \<not> np_isDragging (onPointerUp 0 np_demo_move)"
    using drag_and_throw [of demo_move 0 "[]" np_demo_move demo_ball demo_window 0] move
    unfolding b0 by (simp add: np_demo_move_fields)
  show ?thesis
    using 1 2 3 down by (simp add: demo_down_def)
qed

section \<open>The oscillating gravity of the overlay\<close>

lemma ov_init_fields:
  "world_gravity (ov_world (ov_init opts vp)) = Vec3 0 0 0
   \<and> ov_config (ov_init opts vp) = ov_mkConfig opts
   \<and> ov_balls (ov_init opts vp) = []
   \<and> ov_t (ov_init opts vp) = 0
   \<and> ov_viewport (ov_init opts vp) = vp
   \<and> ov_pointerBox (ov_init opts vp) = Some 6
   \<and> ov_hasPointer (ov_init opts vp) = False
   \<and> ov_nextBody (ov_init opts vp) = 7
   \<and> ov_nextObject (ov_init opts vp) = 4
   \<and> ov_scene (ov_init opts vp) = [0, 1, 2, 3]
   \<and> ov_walls (ov_init opts vp) = [0, 1, 2, 3, 4, 5]
   \<and> world_bodies (ov_world (ov_init opts vp)) = [0, 1, 2, 3, 4, 5, 6]"
  by (simp add: ov_init_def ov_createPointerCollider_def ov_createBoundaries_def
      ov_wallConfigs_def ov_createWall_def ov_newBody_def ov_worldAddBody_def addBody_def
      ov_createPhysicsWorld_def ov_createScene_def ov_fields_def Let_def)

lemma abs_sin_mult_le: "\<bar>sin a * (c::real)\<bar> \<le> \<bar>c\<bar>"
proof -
  have "\<bar>sin a * c\<bar> = \<bar>sin a\<bar> * \<bar>c\<bar>" by (simp add: abs_mult)
  also have "\<dots> \<le> 1 * \<bar>c\<bar>" by (intro mult_right_mono) auto
  finally show ?thesis by simp
qed

lemma abs_cos_mult_le: "\<bar>cos a * (c::real)\<bar> \<le> \<bar>c\<bar>"
proof -
  have "\<bar>cos a * c\<bar> = \<bar>cos a\<bar> * \<bar>c\<bar>" by (simp add: abs_mult)
  also have "\<dots> \<le> 1 * \<bar>c\<bar>" by (intro mult_right_mono) auto
  finally show ?thesis by simp
qed

lemma ov_movePointerBox_fields:
  "ov_world (ov_movePointerBox st) = ov_world st \<and> ov_t (ov_movePointerBox st) = ov_t st
   \<and> ov_config (ov_movePointerBox st) = ov_config st
   \<and> ov_balls (ov_movePointerBox st) = ov_balls st"
  by (simp add: ov_movePointerBox_def Let_def split: option.splits)

lemma ov_animate_fields:
  "ov_t (snd (ov_animate wstep delta st)) = ov_t st + min delta 0.1
   \<and> ov_config (snd (ov_animate wstep delta st)) = ov_config st
   \<and> world_gravity (ov_world (snd (ov_animate wstep delta st)))
       = Vec3 (sin (0.5 * (ov_t st + min delta 0.1)) * oscGravity (ov_config st))
              (cos (0.4 * (ov_t st + min delta 0.1)) * oscGravity (ov_config st)) 0"
  by (simp add: ov_animate_def Let_def ov_movePointerBox_fields)

text \<open>
  C6 (amended). In the overlay the gravity is (0, 0, 0) after initialisation. Every
  frame adds the clamped elapsed time to the accumulated time \<open>t\<close> and sets the
  gravity to (sin(0.5 t) oscGravity, cos(0.4 t) oscGravity, 0). The z component is 0
  and the magnitude of the x and of the y component is at most the absolute value of
  \<open>oscGravity\<close>; so it is at most \<open>oscGravity\<close> when that is not negative, as the
  default 0.015 is.
\<close>

theorem oscillating_gravity:
  "world_gravity (ov_world (ov_init opts vp)) = Vec3 0 0 0
   \<and> ov_t (snd (ov_animate wstep delta st)) = ov_t st + min delta 0.1
   \<and> world_gravity (ov_world (snd (ov_animate wstep delta st)))
       = Vec3 (sin (0.5 * ov_t (snd (ov_animate wstep delta st))) * oscGravity (ov_config st))
              (cos (0.4 * ov_t (snd (ov_animate wstep delta st))) * oscGravity (ov_config st)) 0
   \<and> \<bar>vec_x (world_gravity (ov_world (snd (ov_animate wstep delta st))))\<bar> \<le> \<bar>oscGravity (ov_config st)\<bar>
   \<and> \<bar>vec_y (world_gravity (ov_world (snd (ov_animate wstep delta st))))\<bar> \<le> \<bar>oscGravity (ov_config st)\<bar>
   \<and> vec_z (world_gravity (ov_world (snd (ov_animate wstep delta st)))) = 0
   \<and> (0 \<le> oscGravity (ov_config st) \<longrightarrow>
        \<bar>vec_x (world_gravity (ov_world (snd (ov_animate wstep delta st))))\<bar> \<le> oscGravity (ov_config st)
      \<and> \<bar>vec_y (world_gravity (ov_world (snd (ov_animate wstep delta st))))\<bar> \<le> oscGravity (ov_config st))
   \<and> oscGravity (ov_mkConfig no_options) = 0.015"
proof -
  have x: "\<bar>vec_x (world_gravity (ov_world (snd (ov_animate wstep delta st))))\<bar> \<le> \<bar>oscGravity (ov_config st)\<bar>"
    by (simp only: ov_animate_fields vec3.simps abs_sin_mult_le)
  have y: "\<bar>vec_y (world_gravity (ov_world (snd (ov_animate wstep delta st))))\<bar> \<le> \<bar>oscGravity (ov_config st)\<bar>"
    by (simp only: ov_animate_fields vec3.simps abs_cos_mult_le)
  have xn: "0 \<le> oscGravity (ov_config st) \<longrightarrow>
      \<bar>vec_x (world_gravity (ov_world (snd (ov_animate wstep delta st))))\<bar> \<le> oscGravity (ov_config st)
    \<and> \<bar>vec_y (world_gravity (ov_world (snd (ov_animate wstep delta st))))\<bar> \<le> oscGravity (ov_config st)"
    using x y by linarith
  have d: "oscGravity (ov_mkConfig no_options) = 0.015"
    by (simp add: ov_mkConfig_def no_options_def orDefault_def)
  have i: "world_gravity (ov_world (ov_init opts vp)) = Vec3 0 0 0"
    by (simp add: ov_init_fields)
  have t: "ov_t (snd (ov_animate wstep delta st)) = ov_t st + min delta 0.1"
    by (simp add: ov_animate_fields)
  have g: "world_gravity (ov_world (snd (ov_animate wstep delta st)))
       = Vec3 (sin (0.5 * ov_t (snd (ov_animate wstep delta st))) * oscGravity (ov_config st))
              (cos (0.4 * ov_t (snd (ov_animate wstep delta st))) * oscGravity (ov_config st)) 0"
    by (simp only: ov_animate_fields)
  have z: "vec_z (world_gravity (ov_world (snd (ov_animate wstep delta st)))) = 0"
    by (simp add: ov_animate_fields)
  show ?thesis
    using i t g x y z xn d by blast
qed

lemma ov_negative_fields:
  "oscGravity (ov_config ov_negative) = - 1 \<and> ov_t ov_negative = 0"
  by (simp add: ov_negative_def ov_init_fields ov_mkConfig_def orDefault_def no_options_def)

text \<open>
  The bound by \<open>oscGravity\<close> itself fails for a negative \<open>oscGravity\<close>: with
  \<open>oscGravity = -1\<close> the first frame (elapsed time 0) sets the gravity to (0, -1, 0).
\<close>

theorem oscillating_gravity_counterexample:
  "\<not> \<bar>vec_y (world_gravity (ov_world (snd (ov_animate idle_step 0 ov_negative))))\<bar>
       \<le> oscGravity (ov_config ov_negative)"
  by (simp add: ov_animate_fields ov_negative_fields)

lemma ov_empty_fields:
  "oscGravity (ov_config ov_empty) = 0.015 \<and> ov_t ov_empty = 0"
  by (simp add: ov_empty_def ov_init_fields ov_mkConfig_def orDefault_def no_options_def)

theorem oscillating_gravity_witness:
  "0 \<le> oscGravity (ov_config ov_empty)
   \<and> world_gravity (ov_world (snd (ov_animate idle_step 0 ov_empty))) = Vec3 0 0.015 0
   \<and> \<bar>vec_y (world_gravity (ov_world (snd (ov_animate idle_step 0 ov_empty))))\<bar> \<le> 0.015"
  using oscillating_gravity [of no_options demo_viewport idle_step 0 ov_empty]
  by (simp add: ov_empty_fields)

section \<open>The texture sequence is a permutation\<close>

lemma random_index_le:
  assumes "0 \<le> (u::real)" "u < 1"
  shows "nat \<lfloor>u * (real (Suc i) + 1)\<rfloor> \<le> Suc i"
proof -
  have "u * (real (Suc i) + 1) < real (Suc i) + 1"
    using assms by (simp add: mult_less_cancel_right1)
  then have "\<lfloor>u * (real (Suc i) + 1)\<rfloor> < int (Suc i) + 1"
    by (simp add: floor_less_iff)
  then show ?thesis by linarith
qed

lemma shuffle_mset:
  "(\<forall>n. 0 \<le> rnd n \<and> rnd n < 1) \<Longrightarrow> i < length xs \<Longrightarrow> mset (shuffle rnd k i xs) = mset xs"
proof (induction i arbitrary: k xs)
  case 0
  then show ?case by simp
next
  case (Suc i)
  let ?j = "nat \<lfloor>rnd k * (real (Suc i) + 1)\<rfloor>"
  have j: "?j \<le> Suc i" using Suc.prems(1) by (intro random_index_le) auto
  then have jl: "?j < length xs" using Suc.prems(2) by linarith
  have "mset (xs[Suc i := xs ! ?j, ?j := xs ! Suc i]) = mset xs"
    using jl Suc.prems(2) by (simp add: mset_swap)
  moreover have "i < length (xs[Suc i := xs ! ?j, ?j := xs ! Suc i])"
    using Suc.prems(2) by simp
  ultimately show ?case
    using Suc.IH [OF Suc.prems(1), of "xs[Suc i := xs ! ?j, ?j := xs ! Suc i]" "Suc k"]
    by (simp add: Let_def)
qed

lemma count_list_replicate_eq:
  "count_list (replicate m x) y = (if x = y then m else 0)"
  by (induction m) auto

lemma count_initial_sequence:
  "count_list (concat (map (\<lambda>texIdx. replicate m texIdx) [0..<L])) t = (if t < L then m else 0)"
  by (induction L) (auto simp: count_list_replicate_eq)

lemma length_initial_sequence:
  "length (concat (map (\<lambda>texIdx. replicate m texIdx) [0..<L])) = L * m"
  by (induction L) auto

lemma shuffle_mset_last:
  assumes "\<forall>n. 0 \<le> rnd n \<and> rnd n < 1"
  shows "mset (shuffle rnd k (length xs - 1) xs) = mset xs"
proof (cases xs)
  case Nil
  then show ?thesis by simp
next
  case (Cons a as)
  then show ?thesis
    using shuffle_mset [OF assms, of "length xs - 1" xs k] by simp
qed

text \<open>
  C10. For every list of loaded textures and every outcome of the random draws,
  \<^verbatim>\<open>buildTextureSequence\<close> returns a sequence of length
  \<open>length textures * BALLS_PER_TEXTURE\<close> in which each texture index below the number
  of textures occurs exactly \<open>BALLS_PER_TEXTURE\<close> times, and nothing else occurs: the
  Fisher-Yates pass only permutes.
\<close>

theorem buildTextureSequence_counts:
  assumes "\<forall>n. 0 \<le> rnd n \<and> rnd n < 1"
  shows "length (buildTextureSequence rnd textures) = length textures * BALLS_PER_TEXTURE
     \<and> (\<forall>t < length textures. count_list (buildTextureSequence rnd textures) t = BALLS_PER_TEXTURE)
     \<and> set (buildTextureSequence rnd textures) \<subseteq> {0..<length textures}"
proof -
  let ?s = "concat (map (\<lambda>texIdx. replicate BALLS_PER_TEXTURE texIdx) [0..<length textures])"
  have m: "mset (buildTextureSequence rnd textures) = mset ?s"
    unfolding buildTextureSequence_def Let_def by (rule shuffle_mset_last [OF assms])
  have len: "length (buildTextureSequence rnd textures) = length ?s"
    using m by (metis size_mset)
  have cnt: "count_list (buildTextureSequence rnd textures) t = count_list ?s t" for t
    using m by (metis count_mset)
  have st: "set (buildTextureSequence rnd textures) = set ?s"
    using m by (metis set_mset_mset)
  show ?thesis
    by (auto simp: len cnt st length_initial_sequence count_initial_sequence)
qed

lemma demo_sequence: "buildTextureSequence (\<lambda>_. 1 / 2) demo_textures = [0, 1, 0, 1]"
  by (simp add: buildTextureSequence_def demo_textures_def BALLS_PER_TEXTURE_def
      numeral_2_eq_2 numeral_3_eq_3 Let_def)

theorem buildTextureSequence_counts_witness:
  "buildTextureSequence (\<lambda>_. 1 / 2) demo_textures = [0, 1, 0, 1]
   \<and> length (buildTextureSequence (\<lambda>_. 1 / 2) demo_textures) = 4
   \<and> count_list (buildTextureSequence (\<lambda>_. 1 / 2) demo_textures) 0 = 2
   \<and> count_list (buildTextureSequence (\<lambda>_. 1 / 2) demo_textures) 1 = 2"
proof -
  have r: "\<forall>n::nat. 0 \<le> (1 / 2 :: real) \<and> (1 / 2 :: real) < 1" by simp
  have l: "length demo_textures = 2" by (simp add: demo_textures_def)
  show ?thesis
    using buildTextureSequence_counts [OF r, of demo_textures]
    by (simp add: l BALLS_PER_TEXTURE_def demo_sequence)
qed

section \<open>The animation frame\<close>

lemma ov_createBall_fields:
  "ov_balls (ov_createBall i t x y u v st) =
      ov_balls st @ [\<lparr>sprite = \<lparr>sprite_id = ov_nextObject st,
           sprite_position = Vec3 x y (zOffset (ov_config st)),
           sprite_scale = Vec3 (ballRadius (ov_config st) * 2) (ballRadius (ov_config st) * 2) 1,
           sprite_renderOrder = (if zOffset (ov_config st) \<ge> 0 then 2 else 1),
           sprite_map = pickTexture (ov_textures st) t, sprite_rotation = 0\<rparr>,
         body = ov_nextBody st, index = i, textureIndex = t\<rparr>]
   \<and> ov_config (ov_createBall i t x y u v st) = ov_config st
   \<and> ov_textures (ov_createBall i t x y u v st) = ov_textures st
   \<and> ov_viewport (ov_createBall i t x y u v st) = ov_viewport st
   \<and> ov_t (ov_createBall i t x y u v st) = ov_t st
   \<and> ov_pointerBox (ov_createBall i t x y u v st) = ov_pointerBox st
   \<and> ov_hasPointer (ov_createBall i t x y u v st) = ov_hasPointer st
   \<and> ov_walls (ov_createBall i t x y u v st) = ov_walls st
   \<and> ov_nextBody (ov_createBall i t x y u v st) = Suc (ov_nextBody st)
   \<and> ov_nextObject (ov_createBall i t x y u v st) = Suc (ov_nextObject st)
   \<and> ov_scene (ov_createBall i t x y u v st) = ov_scene st @ [ov_nextObject st]
   \<and> world_gravity (ov_world (ov_createBall i t x y u v st)) = world_gravity (ov_world st)
   \<and> world_bodies (ov_world (ov_createBall i t x y u v st)) = world_bodies (ov_world st) @ [ov_nextBody st]"
  by (simp add: ov_createBall_def Let_def ov_newBody_def ov_worldAddBody_def addBody_def)

lemma ov_createBall_store:
  "ov_store (ov_createBall i t x y u v st) =
     (ov_store st)(ov_nextBody st :=
        (addShape (Sphere (ballRadius (ov_config st)))
           ((new_Body 50 BallMaterial)
              \<lparr>bodyLinearDamping := linearDamping (ov_config st),
               bodyAngularDamping := angularDamping (ov_config st)\<rparr>))
          \<lparr>position := Vec3 x y (zOffset (ov_config st)),
           velocity := Vec3 ((- 0.5 + u) * x * 2 * velocityFromPositionScale (ov_config st))
                            ((- 0.5 + v) * y * 2 * velocityFromPositionScale (ov_config st)) 0\<rparr>)"
  by (simp add: ov_createBall_def Let_def ov_newBody_def ov_worldAddBody_def)

lemma ov_empty_more:
  "ov_pointerBox ov_empty = Some 6 \<and> ov_hasPointer ov_empty = False
   \<and> zOffset (ov_config ov_empty) = 0 \<and> ballRadius (ov_config ov_empty) = 1
   \<and> ballCount (ov_config ov_empty) = 12 \<and> ov_nextBody ov_empty = 7
   \<and> ov_nextObject ov_empty = 4 \<and> ov_balls ov_empty = []
   \<and> ov_viewport ov_empty = demo_viewport
   \<and> velocityFromPositionScale (ov_config ov_empty) = 0.2"
  by (simp add: ov_empty_def ov_init_fields ov_mkConfig_def orDefault_def no_options_def
      BALL_TEXTURES_def BALLS_PER_TEXTURE_def)

lemma ov_demo_fields:
  "map body (ov_balls ov_demo) = [7, 8]
   \<and> map (\<lambda>b. sprite_position (sprite b)) (ov_balls ov_demo) = [Vec3 0 0 0, Vec3 (- 9) 0 0]
   \<and> map index (ov_balls ov_demo) = [0, 1]
   \<and> map textureIndex (ov_balls ov_demo) = [0, 0]
   \<and> length (ov_balls ov_demo) = 2
   \<and> ov_pointerBox ov_demo = Some 6
   \<and> ov_hasPointer ov_demo = False
   \<and> ov_t ov_demo = 0
   \<and> zOffset (ov_config ov_demo) = 0
   \<and> oscGravity (ov_config ov_demo) = 0.015
   \<and> ballRadius (ov_config ov_demo) = 1
   \<and> ballCount (ov_config ov_demo) = 12"
  by (simp add: ov_demo_def ov_createBall_fields ov_empty_fields ov_empty_more)

lemma ov_demo_store:
  "position (ov_store ov_demo 7) = Vec3 0 0 0
   \<and> position (ov_store ov_demo 8) = Vec3 (- 9) 0 0
   \<and> mass (ov_store ov_demo 7) = 50 \<and> mass (ov_store ov_demo 8) = 50
   \<and> shapes (ov_store ov_demo 7) = [Sphere 1]
   \<and> velocity (ov_store ov_demo 8) = Vec3 0 0 0"
  by (simp add: ov_demo_def ov_createBall_fields ov_createBall_store ov_empty_fields
      ov_empty_more new_Body_def addShape_def)


text \<open>
  C1 (amended). Every frame of the overlay requests the next frame, steps the physics
  world with the fixed timestep 1/60, the elapsed time clamped to at most 0.1 and 3
  substeps, then sets the gravity and moves the pointer collider, then copies the
  transform of every ball, then renders; the bodies other than the pointer collider
  are, after the frame, as that one step left them. A frame of NeoballPhysics does the same
  (timestep 1/60, the elapsed time, 2 substeps on mobile and 3 otherwise; step, then
  copies, then render) when the document is not hidden; when it is hidden the frame
  only requests the next frame and leaves the state unchanged.
\<close>

theorem frame_order:
  "fst (ov_animate wstep delta st) =
      [RequestAnimationFrame, WorldStep (1 / 60) (min delta 0.1) 3,
       SetGravity (world_gravity (ov_world (snd (ov_animate wstep delta st))))]
      @ (case ov_pointerBox st of None \<Rightarrow> []
         | Some r \<Rightarrow> [MovePointerBox (position (ov_store (snd (ov_animate wstep delta st)) r))])
      @ map SyncBall [0..<length (ov_balls st)] @ [Render]
   \<and> min delta 0.1 \<le> (0.1 :: real)
   \<and> (\<forall>r. ov_pointerBox st \<noteq> Some r \<longrightarrow>
          ov_store (snd (ov_animate wstep delta st)) r
            = wstep (1 / 60) (min delta 0.1) 3 (ov_world st) (ov_store st) r)
   \<and> (\<not> hidden win \<longrightarrow>
        fst (np_animate wstep win delta' st') =
          [RequestAnimationFrame, WorldStep (1 / 60) delta' (if np_isMobile st' then 2 else 3)]
          @ map SyncBall [0..<length (np_balls st')] @ [Render]
      \<and> np_store (snd (np_animate wstep win delta' st'))
          = wstep (1 / 60) delta' (if np_isMobile st' then 2 else 3) (np_world st') (np_store st'))
   \<and> (hidden win \<longrightarrow> np_animate wstep win delta' st' = ([RequestAnimationFrame], st'))"
proof -
  have s: "\<forall>r. ov_pointerBox st \<noteq> Some r \<longrightarrow>
          ov_store (snd (ov_animate wstep delta st)) r
            = wstep (1 / 60) (min delta 0.1) 3 (ov_world st) (ov_store st) r"
    by (cases "ov_pointerBox st") (simp_all add: ov_animate_def Let_def ov_movePointerBox_def)
  have l: "fst (ov_animate wstep delta st) =
      [RequestAnimationFrame, WorldStep (1 / 60) (min delta 0.1) 3,
       SetGravity (world_gravity (ov_world (snd (ov_animate wstep delta st))))]
      @ (case ov_pointerBox st of None \<Rightarrow> []
         | Some r \<Rightarrow> [MovePointerBox (position (ov_store (snd (ov_animate wstep delta st)) r))])
      @ map SyncBall [0..<length (ov_balls st)] @ [Render]"
    by (cases "ov_pointerBox st")
       (simp_all add: ov_animate_def Let_def ov_movePointerBox_fields)
  have p: "\<not> hidden win \<longrightarrow>
        fst (np_animate wstep win delta' st') =
          [RequestAnimationFrame, WorldStep (1 / 60) delta' (if np_isMobile st' then 2 else 3)]
          @ map SyncBall [0..<length (np_balls st')] @ [Render]
      \<and> np_store (snd (np_animate wstep win delta' st'))
          = wstep (1 / 60) delta' (if np_isMobile st' then 2 else 3) (np_world st') (np_store st')"
    by (simp add: np_animate_def Let_def)
  have h: "hidden win \<longrightarrow> np_animate wstep win delta' st' = ([RequestAnimationFrame], st')"
    by (simp add: np_animate_def)
  have c: "min delta 0.1 \<le> (0.1 :: real)" by simp
  show ?thesis using s l p h c by blast
qed

text \<open>
  A frame of NeoballPhysics while the document is hidden neither steps the world nor
  renders.
\<close>

theorem frame_order_counterexample:
  "Render \<notin> set (fst (np_animate idle_step (demo_window\<lparr>hidden := True\<rparr>) (1 / 60) np_demo))
   \<and> WorldStep (1 / 60) (1 / 60) 3
       \<notin> set (fst (np_animate idle_step (demo_window\<lparr>hidden := True\<rparr>) (1 / 60) np_demo))"
  by (simp add: np_animate_def)


lemma np_demo_mobile: "np_isMobile np_demo = False"
  by (simp add: np_demo_def addBall_def Let_def np_sceneAdd_def np_newBody_def
      np_worldAddBody_def np_empty_def np_loaded_def np_createBalls_def np_init_def
      np_createBoundaries_def np_wallConfigs_def np_createWall_def
      addBody_def np_createPhysicsWorld_def np_createScene_def
      np_fields_def np_mkConfig_def orDefault_def no_options_def)

lemma ov_demo_pointer:
  "position (ov_store (snd (ov_animate idle_step 1 ov_demo)) 6) = Vec3 99999 99999 0"
  by (simp add: ov_animate_def Let_def ov_movePointerBox_def ov_demo_fields)

theorem frame_order_witness:
  "\<not> hidden demo_window
   \<and> fst (ov_animate idle_step 1 ov_demo) =
       [RequestAnimationFrame, WorldStep (1 / 60) (1 / 10) 3,
        SetGravity (Vec3 (sin (1 / 20) * (3 / 200)) (cos (1 / 25) * (3 / 200)) 0),
        MovePointerBox (Vec3 99999 99999 0), SyncBall 0, SyncBall 1, Render]
   \<and> ov_pointerBox ov_demo \<noteq> Some 7
   \<and> position (ov_store (snd (ov_animate idle_step 1 ov_demo)) 7) = Vec3 0 0 0
   \<and> fst (np_animate idle_step demo_window (1 / 60) np_demo) =
       [RequestAnimationFrame, WorldStep (1 / 60) (1 / 60) 3, SyncBall 0, Render]
   \<and> np_store (snd (np_animate idle_step demo_window (1 / 60) np_demo)) = np_store np_demo
   \<and> np_animate idle_step (demo_window\<lparr>hidden := True\<rparr>) (1 / 60) np_demo
       = ([RequestAnimationFrame], np_demo)"
proof -
  have v: "\<not> hidden demo_window" by (simp add: demo_window_def)
  have h: "hidden (demo_window\<lparr>hidden := True\<rparr>)" by simp
  have u: "[0..<2] = [0, Suc 0]" by (simp add: numeral_2_eq_2)
  have b: "ov_pointerBox ov_demo \<noteq> Some 7" by (simp add: ov_demo_fields)
  note f = frame_order [of idle_step 1 ov_demo demo_window "1 / 60" np_demo]
  have 1: "fst (ov_animate idle_step 1 ov_demo) =
       [RequestAnimationFrame, WorldStep (1 / 60) (1 / 10) 3,
        SetGravity (Vec3 (sin (1 / 20) * (3 / 200)) (cos (1 / 25) * (3 / 200)) 0),
        MovePointerBox (Vec3 99999 99999 0), SyncBall 0, SyncBall 1, Render]
     \<and> fst (np_animate idle_step demo_window (1 / 60) np_demo) =
       [RequestAnimationFrame, WorldStep (1 / 60) (1 / 60) 3, SyncBall 0, Render]"
    using f v
    by (simp add: ov_demo_pointer ov_demo_fields ov_animate_fields np_demo_balls
        np_demo_mobile u)
  have "ov_store (snd (ov_animate idle_step 1 ov_demo)) 7
      = idle_step (1 / 60) (min 1 0.1) 3 (ov_world ov_demo) (ov_store ov_demo) 7"
    using f b by blast
  then have 3: "position (ov_store (snd (ov_animate idle_step 1 ov_demo)) 7) = Vec3 0 0 0"
    by (simp add: idle_step_def ov_demo_store)
  have "np_store (snd (np_animate idle_step demo_window (1 / 60) np_demo))
      = idle_step (1 / 60) (1 / 60) (if np_isMobile np_demo then 2 else 3)
          (np_world np_demo) (np_store np_demo)"
    using f v by blast
  then have 4: "np_store (snd (np_animate idle_step demo_window (1 / 60) np_demo)) = np_store np_demo"
    by (simp add: idle_step_def)
  have 2: "np_animate idle_step (demo_window\<lparr>hidden := True\<rparr>) (1 / 60) np_demo
       = ([RequestAnimationFrame], np_demo)"
    using frame_order [of idle_step 1 ov_demo "demo_window\<lparr>hidden := True\<rparr>" "1 / 60" np_demo] h
    by blast
  show ?thesis using v b 1 2 3 4 by blast
qed

text \<open>
  C2 (amended). After every frame of the overlay, for every ball, the x and y
  coordinates of the sprite equal those of its body, and the z coordinate of the
  sprite is the configured \<open>zOffset\<close>. After every frame of NeoballPhysics that runs
  while the document is not hidden, for every ball, the position and the quaternion
  of the mesh equal those of its body; a frame while the document is hidden changes
  nothing.
\<close>

theorem sync_after_frame:
  "(\<forall>b \<in> set (ov_balls (snd (ov_animate wstep delta st))).
        vec_x (sprite_position (sprite b))
          = vec_x (position (ov_store (snd (ov_animate wstep delta st)) (body b)))
      \<and> vec_y (sprite_position (sprite b))
          = vec_y (position (ov_store (snd (ov_animate wstep delta st)) (body b)))
      \<and> vec_z (sprite_position (sprite b)) = zOffset (ov_config st))
   \<and> (\<not> hidden win \<longrightarrow>
        (\<forall>b \<in> set (np_balls (snd (np_animate wstep win delta' st'))).
            mesh_position (mesh b)
              = position (np_store (snd (np_animate wstep win delta' st')) (pbody b))
          \<and> mesh_quaternion (mesh b)
              = quaternion (np_store (snd (np_animate wstep win delta' st')) (pbody b))))
   \<and> (hidden win \<longrightarrow> snd (np_animate wstep win delta' st') = st')"
  by (auto simp: ov_animate_def np_animate_def Let_def ov_movePointerBox_fields
      ov_sync_def np_sync_def)


lemma ov_demo_balls:
  "ov_balls ov_demo =
     [\<lparr>sprite = \<lparr>sprite_id = 4, sprite_position = Vec3 0 0 0, sprite_scale = Vec3 2 2 1,
                  sprite_renderOrder = 2, sprite_map = Some (Plain \<lparr>tex_image = None\<rparr>),
                  sprite_rotation = 0\<rparr>,
       body = 7, index = 0, textureIndex = 0\<rparr>,
      \<lparr>sprite = \<lparr>sprite_id = 5, sprite_position = Vec3 (- 9) 0 0, sprite_scale = Vec3 2 2 1,
                  sprite_renderOrder = 2, sprite_map = Some (Plain \<lparr>tex_image = None\<rparr>),
                  sprite_rotation = 0\<rparr>,
       body = 8, index = 1, textureIndex = 0\<rparr>]"
  by (simp add: ov_demo_def ov_createBall_fields ov_empty_fields ov_empty_more pickTexture_def)

lemma ov_animate_balls:
  "ov_balls (snd (ov_animate wstep delta st)) =
     map (ov_sync (zOffset (ov_config st)) (ov_store (snd (ov_animate wstep delta st)))) (ov_balls st)"
  by (simp add: ov_animate_def Let_def ov_movePointerBox_fields)

lemma ov_demo_lifted_store:
  "vec_z (position (ov_store (snd (ov_animate lift_step 0 ov_demo)) 7)) = 1"
  by (simp add: ov_animate_def Let_def ov_movePointerBox_def ov_demo_fields
      lift_step_def ov_demo_store)

text \<open>
  The sprite's z is not the body's z once a step has moved the body off its layer; and
  a hidden frame right after \<^verbatim>\<open>addBall\<close> leaves the mesh with its random rotation
  while the body has the identity orientation.
\<close>

theorem sync_after_frame_counterexample:
  "vec_z (sprite_position (sprite (ov_balls (snd (ov_animate lift_step 0 ov_demo)) ! 0)))
     \<noteq> vec_z (position (ov_store (snd (ov_animate lift_step 0 ov_demo))
           (body (ov_balls (snd (ov_animate lift_step 0 ov_demo)) ! 0))))
   \<and> mesh_quaternion (mesh (np_balls
         (snd (np_animate idle_step (demo_window\<lparr>hidden := True\<rparr>) 0 np_demo)) ! 0))
     \<noteq> quaternion (np_store (snd (np_animate idle_step (demo_window\<lparr>hidden := True\<rparr>) 0 np_demo))
           (pbody (np_balls (snd (np_animate idle_step (demo_window\<lparr>hidden := True\<rparr>) 0 np_demo)) ! 0)))"
proof -
  have 1: "vec_z (sprite_position (sprite (ov_balls (snd (ov_animate lift_step 0 ov_demo)) ! 0)))
     \<noteq> vec_z (position (ov_store (snd (ov_animate lift_step 0 ov_demo))
           (body (ov_balls (snd (ov_animate lift_step 0 ov_demo)) ! 0))))"
    by (simp add: ov_animate_balls ov_demo_balls ov_sync_def ov_demo_lifted_store ov_demo_fields)
  have 2: "mesh_quaternion (mesh (np_balls np_demo ! 0))
      \<noteq> quaternion (np_store np_demo (pbody (np_balls np_demo ! 0)))"
    by (simp add: np_demo_balls demo_ball_def np_demo_store)
  have 3: "snd (np_animate idle_step (demo_window\<lparr>hidden := True\<rparr>) 0 np_demo) = np_demo"
    by (simp add: np_animate_def)
  show ?thesis
    unfolding 3 using 1 2 by blast
qed


theorem sync_after_frame_witness:
  "\<not> hidden demo_window
   \<and> ov_balls (snd (ov_animate idle_step 0 ov_demo)) \<noteq> []
   \<and> list_all (\<lambda>b. vec_x (sprite_position (sprite b))
                     = vec_x (position (ov_store (snd (ov_animate idle_step 0 ov_demo)) (body b)))
                 \<and> vec_y (sprite_position (sprite b))
                     = vec_y (position (ov_store (snd (ov_animate idle_step 0 ov_demo)) (body b)))
                 \<and> vec_z (sprite_position (sprite b)) = 0)
        (ov_balls (snd (ov_animate idle_step 0 ov_demo)))
   \<and> np_balls (snd (np_animate idle_step demo_window 0 np_demo)) \<noteq> []
   \<and> list_all (\<lambda>b. mesh_position (mesh b)
                     = position (np_store (snd (np_animate idle_step demo_window 0 np_demo)) (pbody b))
                 \<and> mesh_quaternion (mesh b)
                     = quaternion (np_store (snd (np_animate idle_step demo_window 0 np_demo)) (pbody b)))
        (np_balls (snd (np_animate idle_step demo_window 0 np_demo)))
   \<and> snd (np_animate idle_step (demo_window\<lparr>hidden := True\<rparr>) 0 np_demo) = np_demo"
proof -
  have v: "\<not> hidden demo_window" by (simp add: demo_window_def)
  have h: "hidden (demo_window\<lparr>hidden := True\<rparr>)" by simp
  have o: "ov_balls (snd (ov_animate idle_step 0 ov_demo)) \<noteq> []"
    by (simp add: ov_animate_balls ov_demo_balls)
  have p: "np_balls (snd (np_animate idle_step demo_window 0 np_demo)) \<noteq> []"
    using v by (simp add: np_animate_def Let_def np_demo_balls)
  have z: "zOffset (ov_config ov_demo) = 0" by (simp add: ov_demo_fields)
  show ?thesis
    using sync_after_frame [of idle_step 0 ov_demo demo_window 0 np_demo] v o p
          sync_after_frame [of idle_step 0 ov_demo "demo_window\<lparr>hidden := True\<rparr>" 0 np_demo] h
    unfolding list_all_iff z by blast
qed

section \<open>Balls and their rigid bodies\<close>







lemma length_shuffle: "length (shuffle rnd k i xs) = length xs"
  by (induction i arbitrary: k xs) (simp_all add: Let_def)

lemma length_buildTextureSequence:
  "length (buildTextureSequence rnd textures) = length textures * BALLS_PER_TEXTURE"
  by (simp add: buildTextureSequence_def Let_def length_shuffle length_initial_sequence)











lemma demo_loadAllTextures:
  "loadAllTextures demo_loader True True = [Plain \<lparr>tex_image = None\<rparr>]"
  by (simp add: loadAllTextures_def BALL_TEXTURES_def demo_loader_def normalizeBallTexture_def)












section \<open>The number of balls of the overlay\<close>








text \<open>
  When does \<^verbatim>\<open>createBalls\<close> return? Its position sampling returns a candidate that is
  far enough from the positions chosen so far, and returns as soon as one is drawn; so
  a run that creates at most one ball always returns. A run that never draws such a
  candidate does not return: with \<open>ballRadius = 10\<close> on a 30 by 20 viewport and a
  constant random stream, the second ball is never placed.
\<close>

lemma getRandomPositionForBody_sound:
  assumes "getRandomPositionForBody rnd vp r ex sd k = Some y"
  shows "farEnough (fst (fst y)) (snd (fst y)) sd ex
     \<and> (\<exists>m. fst y = candidate vp r (rnd (k + 2 * m)) (rnd (k + 2 * m + 1))
            \<and> snd y = k + 2 * m + 2)"
proof -
  let ?P = "\<lambda>rnd vp r ex sd k y.
     farEnough (fst (fst y)) (snd (fst y)) sd ex
     \<and> (\<exists>m. fst y = candidate vp r (rnd (k + 2 * m)) (rnd (k + 2 * m + 1))
            \<and> snd y = k + 2 * m + 2)"
  have "?P rnd vp r ex sd k y"
  proof (rule getRandomPositionForBody.raw_induct [where P = ?P, OF _ assms])
    fix rec :: "(nat \<Rightarrow> real) \<Rightarrow> viewport \<Rightarrow> real \<Rightarrow> (real \<times> real) list \<Rightarrow> real \<Rightarrow> nat
        \<Rightarrow> ((real \<times> real) \<times> nat) option"
    fix rnd vp r ex sd k y
    assume IH: "\<And>rnd vp r ex sd k y. rec rnd vp r ex sd k = Some y \<Longrightarrow> ?P rnd vp r ex sd k y"
      and eq: "(if farEnough (fst (candidate vp r (rnd k) (rnd (k + 1))))
                    (snd (candidate vp r (rnd k) (rnd (k + 1)))) sd ex
                then Some (candidate vp r (rnd k) (rnd (k + 1)), k + 2)
                else rec rnd vp r ex sd (k + 2)) = Some y"
    show "?P rnd vp r ex sd k y"
    proof (cases "farEnough (fst (candidate vp r (rnd k) (rnd (k + 1))))
           (snd (candidate vp r (rnd k) (rnd (k + 1)))) sd ex")
      case True
      then have y: "y = (candidate vp r (rnd k) (rnd (k + 1)), k + 2)"
        using eq by simp
      have "fst y = candidate vp r (rnd (k + 2 * 0)) (rnd (k + 2 * 0 + 1)) \<and> snd y = k + 2 * 0 + 2"
        using y by simp
      moreover have "farEnough (fst (fst y)) (snd (fst y)) sd ex"
        using True y by simp
      ultimately show ?thesis by blast
    next
      case False
      then have "rec rnd vp r ex sd (k + 2) = Some y"
        using eq by simp
      then have ih: "?P rnd vp r ex sd (k + 2) y"
        by (rule IH)
      then obtain m where m: "fst y = candidate vp r (rnd (k + 2 + 2 * m)) (rnd (k + 2 + 2 * m + 1))"
          "snd y = k + 2 + 2 * m + 2"
        by blast
      have "fst y = candidate vp r (rnd (k + 2 * Suc m)) (rnd (k + 2 * Suc m + 1))
          \<and> snd y = k + 2 * Suc m + 2"
        using m by (simp add: add.assoc)
      then show ?thesis using ih by blast
    qed
  qed
  then show ?thesis .
qed

lemma getRandomPositionForBody_returns:
  "farEnough (fst (candidate vp r (rnd (k + 2 * m)) (rnd (k + 2 * m + 1))))
      (snd (candidate vp r (rnd (k + 2 * m)) (rnd (k + 2 * m + 1)))) sd ex
   \<Longrightarrow> \<exists>y. getRandomPositionForBody rnd vp r ex sd k = Some y"
proof (induction m arbitrary: k)
  case 0
  then show ?case
    by (subst getRandomPositionForBody.simps) simp
next
  case (Suc m)
  have "\<exists>y. getRandomPositionForBody rnd vp r ex sd (k + 2) = Some y"
    using Suc.prems by (intro Suc.IH) (simp add: add.assoc)
  then show ?case
    by (subst getRandomPositionForBody.simps) simp
qed

lemma ov_createBalls_returns_single:
  assumes "min (ballCount (ov_config st)) (length (ov_textures st) * BALLS_PER_TEXTURE) \<le> 1"
  shows "\<exists>st'. ov_createBalls rnd st = Some st'"
proof -
  let ?n = "min (ballCount (ov_config st)) (length (buildTextureSequence rnd (ov_textures st)))"
  have n: "?n = 0 \<or> ?n = Suc 0"
    using assms by (simp add: length_buildTextureSequence) linarith
  have g: "\<exists>y. getRandomPositionForBody rnd (ov_viewport st) (ballRadius (ov_config st)) [] sd k = Some y"
    for sd k
    by (rule getRandomPositionForBody_returns [of _ _ _ _ 0]) (simp add: farEnough_def)
  show ?thesis
    using n
  proof
    assume "?n = 0"
    then show ?thesis by (simp add: ov_createBalls_def Let_def)
  next
    assume "?n = Suc 0"
    then show ?thesis
      using g by (simp add: ov_createBalls_def Let_def split: option.splits)
  qed
qed

lemma ov_createBalls_may_not_return:
  "ov_start (\<lambda>_. 1 / 2) demo_loader True True ov_crowded = None"
proof -
  have c: "candidate demo_viewport 10 (1 / 2) (1 / 2) = (0, 0)"
    by (simp add: candidate_def demo_viewport_def Let_def)
  have first: "getRandomPositionForBody (\<lambda>_. 1 / 2) demo_viewport 10 [] sd k = Some ((0, 0), k + 2)"
    for sd k
    by (subst getRandomPositionForBody.simps) (simp add: farEnough_def c)
  have second: "getRandomPositionForBody (\<lambda>_. 1 / 2) demo_viewport 10 [(0, 0)] (75 / 2) k = None"
    for k
  proof (cases "getRandomPositionForBody (\<lambda>_. 1 / 2) demo_viewport 10 [(0, 0)] (75 / 2) k")
    case None
    then show ?thesis .
  next
    case (Some y)
    from getRandomPositionForBody_sound [OF Some]
    have "farEnough (fst (fst y)) (snd (fst y)) (75 / 2) [(0, 0)]" and "fst y = (0, 0)"
      by (auto simp: c)
    then show ?thesis by (simp add: farEnough_def)
  qed
  have f: "ov_viewport ov_crowded = demo_viewport \<and> ballRadius (ov_config ov_crowded) = 10
      \<and> ballCount (ov_config ov_crowded) = 12"
    by (simp add: ov_crowded_def ov_init_fields ov_mkConfig_def orDefault_def no_options_def
        BALL_TEXTURES_def BALLS_PER_TEXTURE_def)
  have s: "length (buildTextureSequence (\<lambda>_. 1 / 2) [Plain \<lparr>tex_image = None\<rparr>]) = 2"
    by (simp add: length_buildTextureSequence BALLS_PER_TEXTURE_def)
  show ?thesis
    by (simp add: ov_start_def ov_createBalls_def demo_loadAllTextures Let_def f s
        numeral_2_eq_2 first ov_createBall_fields second)
qed


section \<open>Texture normalisation\<close>

lemma TARGET_DIAMETER_eq: "TARGET_DIAMETER = 440"
  by (simp add: TARGET_DIAMETER_def OUT_def round_def)






















lemma corner_opaqueBox:
  "opaqueBox [0, 0, 0, 0, 0, 0, 0, 0, 0, 0, 0, 0, 0, 0, 0, 255] 2 2 = (1, 1, 1, 1)"
  by (simp add: opaqueBox_def scanRow_def scanPixel_def opaque_def byteAt_def THRESH_def
      numeral_2_eq_2)



text \<open>
  The crop starts at \<open>floor (cx - b / 2)\<close> with \<open>cx\<close> the mean of the first and the last
  opaque column, half a pixel left of the box's centre; so when the box does not touch
  the left or the top edge, the crop is shifted by one pixel and leaves out the last
  opaque column or row. In a 2 by 2 image whose only opaque pixel is (1, 1), the crop
  is the single pixel (0, 0).
\<close>

lemma normalizeBallTexture_crop_misses_pixel:
  "(1, 1) \<in> opaquePixels [0, 0, 0, 0, 0, 0, 0, 0, 0, 0, 0, 0, 0, 0, 0, 255] 2 2
   \<and> normalizeBallTexture True True \<lparr>tex_image = Some corner_image\<rparr> =
     CanvasTexture
       \<lparr>canvas_width = 512, canvas_height = 512, cropX = 0, cropY = 0, cropW = 1, cropH = 1,
        dest_x = 36, dest_y = 36, dest_w = 440, dest_h = 440,
        arc_x = 256, arc_y = 256, arc_radius = 220\<rparr>"
  by (simp add: normalizeBallTexture_def corner_image_def sourceWidth_def sourceHeight_def
      corner_opaqueBox Let_def TARGET_DIAMETER_eq OUT_def opaquePixels_def opaque_def
      byteAt_def THRESH_def)


end
